theory Spec2Isabelle
  imports Main "HOL-Library.AList"
begin

section \<open>Python values\<close>

text \<open>
  The client of \<^verbatim>\<open>pyspaceweather.py\<close> handles decoded JSON documents, \<^verbatim>\<open>datetime\<close>
  objects and named tuples. A \<^verbatim>\<open>datetime\<close> is a record of its components; \<open>tzinfo\<close> is
  the UTC offset (in seconds) of an aware object and \<open>None\<close> for a naive one. Strings are
  lists of 8-bit characters, read as the code points below 256.
\<close>

record datetime =
  year :: nat
  month :: nat
  day :: nat
  hour :: nat
  minute :: nat
  second :: nat
  microsecond :: nat
  tzinfo :: "int option"

text \<open>
  A decoded dictionary is an association list read with \<open>map_of\<close>; the JSON decoder never
  produces \<open>PDatetime\<close>, the client does.
\<close>

datatype pyval =
    PNone
  | PBool bool
  | PInt int
  | PStr string
  | PList "pyval list"
  | PDict "(string \<times> pyval) list"
  | PDatetime datetime

text \<open>
  The exceptions that can leave the client. \<open>ValueError\<close> carries its message; \<open>KeyError\<close>
  the missing key; \<open>HTTPError\<close> the argument it was raised with. \<open>JSONDecodeError\<close> is what
  \<^verbatim>\<open>response.json()\<close> raises on a body that is not JSON, \<open>RequestException\<close> stands for
  the transport failures of \<^verbatim>\<open>requests.post\<close> (connection error, timeout).
\<close>

datatype error =
    ValueError string
  | TypeError
  | KeyError pyval
  | IndexError
  | HTTPError pyval
  | JSONDecodeError
  | RequestException

text \<open>Truth value testing, as \<^verbatim>\<open>if data:\<close> does it.\<close>

fun truthy :: "pyval \<Rightarrow> bool" where
  "truthy PNone = False"
| "truthy (PBool b) = b"
| "truthy (PInt i) = (i \<noteq> 0)"
| "truthy (PStr s) = (s \<noteq> [])"
| "truthy (PList xs) = (xs \<noteq> [])"
| "truthy (PDict kvs) = (kvs \<noteq> [])"
| "truthy (PDatetime d) = True"

text \<open>Subscription \<^verbatim>\<open>x[key]\<close> with a string key.\<close>

fun getitem :: "pyval \<Rightarrow> string \<Rightarrow> error + pyval" where
  "getitem (PDict kvs) k = (case map_of kvs k of None \<Rightarrow> Inl (KeyError (PStr k)) | Some v \<Rightarrow> Inr v)"
| "getitem v k = Inl TypeError"

text \<open>Subscription \<^verbatim>\<open>x[0]\<close>. The keys of a decoded dictionary are strings, so \<open>0\<close> is never one.\<close>

fun getitem0 :: "pyval \<Rightarrow> error + pyval" where
  "getitem0 (PList xs) = (case xs of [] \<Rightarrow> Inl IndexError | x # _ \<Rightarrow> Inr x)"
| "getitem0 (PStr s) = (case s of [] \<Rightarrow> Inl IndexError | c # _ \<Rightarrow> Inr (PStr [c]))"
| "getitem0 (PDict kvs) = Inl (KeyError (PInt 0))"
| "getitem0 v = Inl TypeError"

text \<open>
  Iteration \<^verbatim>\<open>for x in v\<close>: a list yields its elements, a dictionary its keys, a string its
  characters; nothing else that occurs here is iterable.
\<close>

fun iter :: "pyval \<Rightarrow> error + pyval list" where
  "iter (PList xs) = Inr xs"
| "iter (PDict kvs) = Inr (map PStr (remdups (map fst kvs)))"
| "iter (PStr s) = Inr (map (\<lambda>c. PStr [c]) s)"
| "iter v = Inl TypeError"

section \<open>\<^verbatim>\<open>datetime.strptime\<close> and \<^verbatim>\<open>datetime.strftime\<close>\<close>

text \<open>
  \<^verbatim>\<open>_strptime\<close> turns the format into a regular expression, matches it against the start of
  the string, demands that nothing is left over, converts the groups with \<^verbatim>\<open>int\<close> and
  builds the \<^verbatim>\<open>datetime\<close>, whose constructor checks the ranges. The model follows this
  for the six directives the client's two formats use:
  \<^verbatim>\<open>
  'd': r"(?P<d>3[0-1]|[1-2]\d|0[1-9]|[1-9]| [1-9])"
  'H': r"(?P<H>2[0-3]|[0-1]\d|\d)"
  'm': r"(?P<m>1[0-2]|0[1-9]|[1-9])"
  'M': r"(?P<M>[0-5]\d|\d)"
  'S': r"(?P<S>6[0-1]|[0-5]\d|\d)"
  'Y': r"(?P<Y>\d\d\d\d)"
  \<close>
  and white space in the format becomes \<^verbatim>\<open>\s+\<close>.
\<close>

definition is_digit :: "char \<Rightarrow> bool" where
  "is_digit c = (48 \<le> (of_char c :: nat) \<and> (of_char c :: nat) \<le> 57)"

definition digit_val :: "char \<Rightarrow> nat" where
  "digit_val c = of_char c - 48"

definition is_space :: "char \<Rightarrow> bool" where
  "is_space c = (let n = (of_char c :: nat) in
     (9 \<le> n \<and> n \<le> 13) \<or> (28 \<le> n \<and> n \<le> 32) \<or> n = 133 \<or> n = 160)"

text \<open>A character class of the expressions above: a digit range \<^verbatim>\<open>[lo-hi]\<close> or a blank.\<close>

datatype cls = Digits nat nat | Blank

text \<open>A piece of the expression: a literal character, \<^verbatim>\<open>\s+\<close>, or a named group of alternatives.\<close>

datatype item = Ch char | Spaces | Group char "cls list list"

fun cls_match :: "cls \<Rightarrow> char \<Rightarrow> bool" where
  "cls_match (Digits lo hi) c = (is_digit c \<and> lo \<le> digit_val c \<and> digit_val c \<le> hi)"
| "cls_match Blank c = (c = CHR '' '')"

fun seq_match :: "cls list \<Rightarrow> string \<Rightarrow> (string \<times> string) option" where
  "seq_match [] s = Some ([], s)"
| "seq_match (k # ks) [] = None"
| "seq_match (k # ks) (c # cs) =
     (if cls_match k c
      then (case seq_match ks cs of None \<Rightarrow> None | Some (m, r) \<Rightarrow> Some (c # m, r))
      else None)"

text \<open>
  The backtracking matcher: the alternatives of a group are tried in order, \<^verbatim>\<open>\s+\<close> takes
  the longest run first, and a choice is kept only if the rest of the expression matches.
  The result is the dictionary of the groups and the unconsumed rest of the string.
\<close>

fun re_match :: "item list \<Rightarrow> string \<Rightarrow> ((char \<times> string) list \<times> string) option"
  and alts_match :: "cls list list \<Rightarrow> char \<Rightarrow> item list \<Rightarrow> string \<Rightarrow> ((char \<times> string) list \<times> string) option"
  and spaces_match :: "nat \<Rightarrow> item list \<Rightarrow> string \<Rightarrow> ((char \<times> string) list \<times> string) option"
where
  "re_match [] s = Some ([], s)"
| "re_match (Ch c # r) s = (case s of [] \<Rightarrow> None | x # xs \<Rightarrow> if x = c then re_match r xs else None)"
| "re_match (Spaces # r) s = spaces_match (length (takeWhile is_space s)) r s"
| "re_match (Group key alts # r) s = alts_match alts key r s"
| "alts_match [] key r s = None"
| "alts_match (a # as) key r s =
     (case seq_match a s of
        None \<Rightarrow> alts_match as key r s
      | Some (m, rest) \<Rightarrow>
          (case re_match r rest of
             None \<Rightarrow> alts_match as key r s
           | Some (found, fin) \<Rightarrow> Some ((key, m) # found, fin)))"
| "spaces_match 0 r s = None"
| "spaces_match (Suc n) r s =
     (case re_match r (drop (Suc n) s) of
        None \<Rightarrow> spaces_match n r s
      | Some res \<Rightarrow> Some res)"

definition directive :: "char \<Rightarrow> item option" where
  "directive d =
     (if d = CHR ''d'' then Some (Group d [[Digits 3 3, Digits 0 1], [Digits 1 2, Digits 0 9],
                                           [Digits 0 0, Digits 1 9], [Digits 1 9], [Blank, Digits 1 9]])
      else if d = CHR ''H'' then Some (Group d [[Digits 2 2, Digits 0 3], [Digits 0 1, Digits 0 9], [Digits 0 9]])
      else if d = CHR ''m'' then Some (Group d [[Digits 1 1, Digits 0 2], [Digits 0 0, Digits 1 9], [Digits 1 9]])
      else if d = CHR ''M'' then Some (Group d [[Digits 0 5, Digits 0 9], [Digits 0 9]])
      else if d = CHR ''S'' then Some (Group d [[Digits 6 6, Digits 0 1], [Digits 0 5, Digits 0 9], [Digits 0 9]])
      else if d = CHR ''Y'' then Some (Group d [[Digits 0 9, Digits 0 9, Digits 0 9, Digits 0 9]])
      else None)"

text \<open>
  \<^verbatim>\<open>TimeRE.pattern\<close>: a run of white space becomes one \<^verbatim>\<open>\s+\<close>, a directive its group,
  any other character itself. \<open>None\<close> is a directive outside the six above or a stray
  \<^verbatim>\<open>%\<close>.
\<close>

function pattern :: "string \<Rightarrow> item list option" where
  "pattern [] = Some []"
| "pattern (c # cs) =
     (if c = CHR ''%'' then
        (case cs of
           [] \<Rightarrow> None
         | d # ds \<Rightarrow> (case directive d of
                        None \<Rightarrow> None
                      | Some g \<Rightarrow> map_option ((#) g) (pattern ds)))
      else if is_space c then map_option ((#) Spaces) (pattern (dropWhile is_space cs))
      else map_option ((#) (Ch c)) (pattern cs))"
  by pat_completeness auto
termination
  by (relation "measure length") (auto simp: less_Suc_eq_le length_dropWhile_le)

text \<open>\<^verbatim>\<open>int(s)\<close> on a group: surrounding white space is stripped, the digits are read in base ten.\<close>

definition py_int :: "string \<Rightarrow> nat" where
  "py_int s = foldl (\<lambda>n c. 10 * n + digit_val c) 0 (dropWhile is_space s)"

definition is_leap :: "nat \<Rightarrow> bool" where
  "is_leap y = (y mod 4 = 0 \<and> (y mod 100 \<noteq> 0 \<or> y mod 400 = 0))"

definition days_in_month :: "nat \<Rightarrow> nat \<Rightarrow> nat" where
  "days_in_month y m =
     (if m = 2 then (if is_leap y then 29 else 28)
      else if m = 4 \<or> m = 6 \<or> m = 9 \<or> m = 11 then 30 else 31)"

text \<open>The class invariant of \<^verbatim>\<open>datetime\<close>, as its constructor enforces it.\<close>

definition valid_datetime :: "datetime \<Rightarrow> bool" where
  "valid_datetime d =
     (1 \<le> year d \<and> year d \<le> 9999 \<and> 1 \<le> month d \<and> month d \<le> 12 \<and>
      1 \<le> day d \<and> day d \<le> days_in_month (year d) (month d) \<and>
      hour d \<le> 23 \<and> minute d \<le> 59 \<and> second d \<le> 59 \<and> microsecond d \<le> 999999)"

definition group_or :: "(char \<times> string) list \<Rightarrow> char \<Rightarrow> nat \<Rightarrow> nat" where
  "group_or found key dflt = (case map_of found key of None \<Rightarrow> dflt | Some s \<Rightarrow> py_int s)"

definition strptime :: "pyval \<Rightarrow> string \<Rightarrow> error + datetime" where
  "strptime v fmt =
     (case v of
        PStr s \<Rightarrow>
          (case pattern fmt of
             None \<Rightarrow> Inl (ValueError ''bad directive in format'')
           | Some re \<Rightarrow>
               (case re_match re s of
                  None \<Rightarrow> Inl (ValueError ''time data does not match format'')
                | Some (found, rest) \<Rightarrow>
                    if rest \<noteq> [] then Inl (ValueError ''unconverted data remains'')
                    else
                      let d = \<lparr>year = group_or found CHR ''Y'' 1900,
                               month = group_or found CHR ''m'' 1,
                               day = group_or found CHR ''d'' 1,
                               hour = group_or found CHR ''H'' 0,
                               minute = group_or found CHR ''M'' 0,
                               second = group_or found CHR ''S'' 0,
                               microsecond = 0,
                               tzinfo = None\<rparr>
                      in if valid_datetime d then Inr d
                         else Inl (ValueError ''value out of range'')))
      | _ \<Rightarrow> Inl TypeError)"

text \<open>
  \<^verbatim>\<open>strftime\<close> copies the format and replaces each directive by its field, two digits
  wide and zero-filled. The width of \<^verbatim>\<open>%Y\<close> is the C library's: some fill a year below
  1000 with zeros to four digits, others print it as it is; \<open>zp\<close> says which. The fields
  \<open>microsecond\<close> and \<open>tzinfo\<close> have no directive in the client's formats.
\<close>

definition digit_char :: "nat \<Rightarrow> char" where
  "digit_char n = char_of (48 + n)"

definition pad2 :: "nat \<Rightarrow> string" where
  "pad2 n = [digit_char (n div 10 mod 10), digit_char (n mod 10)]"

definition pad4 :: "nat \<Rightarrow> string" where
  "pad4 n = [digit_char (n div 10 div 10 div 10 mod 10), digit_char (n div 10 div 10 mod 10),
             digit_char (n div 10 mod 10), digit_char (n mod 10)]"

function dec :: "nat \<Rightarrow> string" where
  "dec n = (if n < 10 then [digit_char n] else dec (n div 10) @ [digit_char (n mod 10)])"
  by pat_completeness auto
termination
  by (relation "measure id") auto

declare dec.simps [simp del]

definition field :: "bool \<Rightarrow> datetime \<Rightarrow> char \<Rightarrow> string" where
  "field zp d e =
     (if e = CHR ''Y'' then (if zp then pad4 (year d) else dec (year d))
      else if e = CHR ''m'' then pad2 (month d)
      else if e = CHR ''d'' then pad2 (day d)
      else if e = CHR ''H'' then pad2 (hour d)
      else if e = CHR ''M'' then pad2 (minute d)
      else if e = CHR ''S'' then pad2 (second d)
      else [CHR ''%'', e])"

fun strftime :: "bool \<Rightarrow> datetime \<Rightarrow> string \<Rightarrow> string" where
  "strftime zp d [] = []"
| "strftime zp d [c] = [c]"
| "strftime zp d (c # e # cs) =
     (if c = CHR ''%'' then field zp d e @ strftime zp d cs
      else c # strftime zp d (e # cs))"

section \<open>The HTTP exchange\<close>

text \<open>
  What \<^verbatim>\<open>requests.post\<close> is given and what it returns. \<open>body\<close> is the decoded JSON of
  the response, \<open>None\<close> when the body is not JSON. The remote service and the transport
  are the function \<open>post\<close> of the environment, which may also raise; \<open>pad_year\<close> is the
  platform's \<^verbatim>\<open>%Y\<close> behaviour.
\<close>

record request =
  url :: string
  timeout :: nat
  headers :: "(string \<times> string) list"
  json :: pyval

record response =
  status_code :: int
  body :: "pyval option"

record env =
  post :: "request \<Rightarrow> error + response"
  pad_year :: bool

text \<open>
  A call's outcome comes with the requests it has issued, in order, so that "before any
  request is made" is a statement about the second component.
\<close>

type_synonym 'a outcome = "(error + 'a) \<times> request list"

definition bind :: "error + 'a \<Rightarrow> ('a \<Rightarrow> error + 'b) \<Rightarrow> error + 'b" where
  "bind x f = (case x of Inl e \<Rightarrow> Inl e | Inr v \<Rightarrow> f v)"

definition response_json :: "response \<Rightarrow> error + pyval" where
  "response_json r = (case body r of None \<Rightarrow> Inl JSONDecodeError | Some v \<Rightarrow> Inr v)"

text \<open>
  \<^verbatim>\<open>Response.raise_for_status\<close> raises for the status codes 400 to 599 only. Its message
  also names the reason phrase and the URL, which are left out here.
\<close>

definition raise_for_status :: "response \<Rightarrow> error + unit" where
  "raise_for_status r =
     (if 400 \<le> status_code r \<and> status_code r < 500 then Inl (HTTPError (PStr ''Client Error''))
      else if 500 \<le> status_code r \<and> status_code r < 600 then Inl (HTTPError (PStr ''Server Error''))
      else Inr ())"

text \<open>One blocking POST, then the rest of the method on its response.\<close>

definition send :: "env \<Rightarrow> request \<Rightarrow> (response \<Rightarrow> error + 'a) \<Rightarrow> 'a outcome" where
  "send e req k = (case post e req of Inl err \<Rightarrow> Inl err | Inr r \<Rightarrow> k r, [req])"

section \<open>The named tuples\<close>

text \<open>
  The eight \<^verbatim>\<open>namedtuple\<close> classes, with the field names of the source (the second field
  of \<^verbatim>\<open>AuroraOutlook\<close> is called \<^verbatim>\<open>start_time\<close> there). Each element of \<open>activity\<close> is
  one single-entry dictionary \<^verbatim>\<open>{date: forecast}\<close>, written as the pair.
\<close>

datatype obj =
    AuroraOutlook (issue_time: pyval) (start_time: pyval) (end_date: pyval) (cause: pyval)
      (k_aus: pyval) (lat_band: pyval) (comments: pyval)
  | AuroraWatch (issue_time: pyval) (start_date: pyval) (end_date: pyval) (cause: pyval)
      (k_aus: pyval) (lat_band: pyval) (comments: pyval)
  | AuroraAlert (start_time: pyval) (valid_until: pyval) (k_aus: pyval) (lat_band: pyval)
      (description: pyval)
  | MagAlert (start_time: pyval) (valid_until: pyval) (g_scale: pyval) (description: pyval)
  | MagWarning (issue_time: pyval) (start_date: pyval) (end_date: pyval) (cause: pyval)
      (activity: "(datetime \<times> pyval) list") (comments: pyval)
  | AIndex (valid_time: pyval) (index: pyval)
  | KIndex (valid_time: pyval) (analysis_time: pyval) (index: pyval)
  | DstIndex (valid_time: pyval) (index: pyval)

section \<open>The client\<close>

record SpaceWeather =
  headers_of :: "(string \<times> string) list"
  api_key :: pyval
  time_format :: string
  time_format_with_minutes :: string

definition base_url :: string where
  "base_url = ''https://sws-data.sws.bom.gov.au/api/v1/''"

definition default_headers :: "(string \<times> string) list" where
  "default_headers = [(''Content-Type'', ''application/json; charset=UTF-8'')]"

definition verify_api_key :: "env \<Rightarrow> (string \<times> string) list \<Rightarrow> pyval \<Rightarrow> pyval outcome" where
  "verify_api_key e hdrs key =
     send e \<lparr>url = base_url @ ''get-k-index'', timeout = 15, headers = hdrs,
              json = PDict [(''api_key'', key),
                            (''options'', PDict [(''location'', PStr ''Australian region'')])]\<rparr>
       (\<lambda>r. if status_code r = 403
             then Inl (ValueError ''HTTP Error 403 - please pass a valid API key.'')
             else bind (raise_for_status r) (\<lambda>_. Inr key))"

text \<open>\<^verbatim>\<open>SpaceWeather.__init__\<close>.\<close>

definition init :: "env \<Rightarrow> pyval \<Rightarrow> SpaceWeather outcome" where
  "init e key =
     (case verify_api_key e default_headers key of
        (Inl err, log) \<Rightarrow> (Inl err, log)
      | (Inr k, log) \<Rightarrow>
          (Inr \<lparr>headers_of = default_headers, api_key = k, time_format = ''%Y-%m-%d'',
                time_format_with_minutes = ''%Y-%m-%d %H:%M:%S''\<rparr>, log))"

text \<open>A loop that appends to a result list and stops at the first exception.\<close>

fun collect :: "('a \<Rightarrow> error + 'b list) \<Rightarrow> 'a list \<Rightarrow> error + 'b list" where
  "collect f [] = Inr []"
| "collect f (x # xs) =
     (case f x of
        Inl e \<Rightarrow> Inl e
      | Inr ys \<Rightarrow> (case collect f xs of Inl e \<Rightarrow> Inl e | Inr zs \<Rightarrow> Inr (ys @ zs)))"

text \<open>
  The body of the time-period loops of \<^verbatim>\<open>_get_aurora\<close> and \<^verbatim>\<open>get_mag_warning\<close>:
  \<^verbatim>\<open>
  try:
      try:
          time = datetime.strptime(elem[time_period], self._time_format_with_minutes)
      except ValueError:
          time = datetime.strptime(elem[time_period], self._time_format)
  except KeyError:
      ...
  \<close>
  \<open>Inr None\<close> is the \<^verbatim>\<open>KeyError\<close> handler being entered.
\<close>

definition parse_time_period :: "SpaceWeather \<Rightarrow> pyval \<Rightarrow> string \<Rightarrow> error + datetime option" where
  "parse_time_period self elem tp =
     (case (case bind (getitem elem tp) (\<lambda>v. strptime v (time_format_with_minutes self)) of
              Inl (ValueError m) \<Rightarrow> bind (getitem elem tp) (\<lambda>v. strptime v (time_format self))
            | r \<Rightarrow> r) of
        Inl (KeyError k) \<Rightarrow> Inr None
      | Inl e \<Rightarrow> Inl e
      | Inr t \<Rightarrow> Inr (Some t))"

text \<open>
  The loop over \<^verbatim>\<open>time_periods.keys()\<close>; \<open>absent\<close> is what the handler stores:
  nothing in \<^verbatim>\<open>_get_aurora\<close> (\<^verbatim>\<open>pass\<close>), \<^verbatim>\<open>None\<close> in \<^verbatim>\<open>get_mag_warning\<close>.
\<close>

fun time_periods_loop ::
  "SpaceWeather \<Rightarrow> pyval \<Rightarrow> pyval option \<Rightarrow> string list \<Rightarrow> (string \<times> pyval) list \<Rightarrow>
   error + (string \<times> pyval) list" where
  "time_periods_loop self elem absent [] tps = Inr tps"
| "time_periods_loop self elem absent (tp # rest) tps =
     (case parse_time_period self elem tp of
        Inl e \<Rightarrow> Inl e
      | Inr None \<Rightarrow>
          time_periods_loop self elem absent rest
            (case absent of None \<Rightarrow> tps | Some v \<Rightarrow> AList.update tp v tps)
      | Inr (Some t) \<Rightarrow>
          time_periods_loop self elem absent rest (AList.update tp (PDatetime t) tps))"

text \<open>\<^verbatim>\<open>dict.get(key)\<close>.\<close>

definition dict_get :: "(string \<times> pyval) list \<Rightarrow> string \<Rightarrow> pyval" where
  "dict_get kvs k = (case map_of kvs k of None \<Rightarrow> PNone | Some v \<Rightarrow> v)"

definition aurora_time_periods :: "(string \<times> pyval) list" where
  "aurora_time_periods =
     [(''issue_time'', PStr []), (''start_date'', PStr []), (''end_date'', PStr []),
      (''start_time'', PStr []), (''valid_until'', PStr [])]"

text \<open>The body of the loop \<^verbatim>\<open>for aurora in data\<close>; the result is what it appends.\<close>

definition aurora_record :: "SpaceWeather \<Rightarrow> string \<Rightarrow> pyval \<Rightarrow> error + obj list" where
  "aurora_record self aurora_type aurora =
     bind (time_periods_loop self aurora None (map fst aurora_time_periods) aurora_time_periods)
       (\<lambda>tps.
          if aurora_type = ''outlook'' then
            bind (getitem aurora ''cause'') (\<lambda>c.
            bind (getitem aurora ''k_aus'') (\<lambda>k.
            bind (getitem aurora ''lat_band'') (\<lambda>l.
            bind (getitem aurora ''comments'') (\<lambda>m.
              Inr [AuroraOutlook (dict_get tps ''issue_time'') (dict_get tps ''start_date'')
                     (dict_get tps ''end_date'') c k l m]))))
          else if aurora_type = ''watch'' then
            bind (getitem aurora ''cause'') (\<lambda>c.
            bind (getitem aurora ''k_aus'') (\<lambda>k.
            bind (getitem aurora ''lat_band'') (\<lambda>l.
            bind (getitem aurora ''comments'') (\<lambda>m.
              Inr [AuroraWatch (dict_get tps ''issue_time'') (dict_get tps ''start_date'')
                     (dict_get tps ''end_date'') c k l m]))))
          else if aurora_type = ''alert'' then
            bind (getitem aurora ''k_aus'') (\<lambda>k.
            bind (getitem aurora ''lat_band'') (\<lambda>l.
            bind (getitem aurora ''description'') (\<lambda>d.
              Inr [AuroraAlert (dict_get tps ''start_time'') (dict_get tps ''valid_until'') k l d])))
          else Inr [])"

text \<open>
  What every method does with a response: a status other than 200 raises
  \<^verbatim>\<open>requests.HTTPError(response.json())\<close>; otherwise \<^verbatim>\<open>response.json()["data"]\<close> is read.
\<close>

definition response_data :: "response \<Rightarrow> error + pyval" where
  "response_data r =
     (if status_code r \<noteq> 200 then bind (response_json r) (\<lambda>b. Inl (HTTPError b))
      else bind (response_json r) (\<lambda>j. getitem j ''data''))"

text \<open>The part of \<^verbatim>\<open>_get_aurora\<close> after the request.\<close>

definition aurora_response :: "SpaceWeather \<Rightarrow> string \<Rightarrow> response \<Rightarrow> error + obj list" where
  "aurora_response self aurora_type r =
     bind (response_data r) (\<lambda>data.
       if truthy data
       then bind (iter data) (collect (aurora_record self aurora_type))
       else Inr [])"

definition get_aurora :: "SpaceWeather \<Rightarrow> env \<Rightarrow> string \<Rightarrow> obj list outcome" where
  "get_aurora self e aurora_type =
     send e \<lparr>url = base_url @ ''get-aurora-'' @ aurora_type, timeout = 15,
              headers = headers_of self, json = PDict [(''api_key'', api_key self)]\<rparr>
       (aurora_response self aurora_type)"

definition get_aurora_outlook :: "SpaceWeather \<Rightarrow> env \<Rightarrow> obj list outcome" where
  "get_aurora_outlook self e = get_aurora self e ''outlook''"

definition get_aurora_watch :: "SpaceWeather \<Rightarrow> env \<Rightarrow> obj list outcome" where
  "get_aurora_watch self e = get_aurora self e ''watch''"

definition get_aurora_alert :: "SpaceWeather \<Rightarrow> env \<Rightarrow> obj list outcome" where
  "get_aurora_alert self e = get_aurora self e ''alert''"

text \<open>Item assignment \<^verbatim>\<open>x[key] = v\<close> with a string key; the dictionary is returned updated.\<close>

fun setitem :: "pyval \<Rightarrow> string \<Rightarrow> pyval \<Rightarrow> error + pyval" where
  "setitem (PDict kvs) k v = Inr (PDict (AList.update k v kvs))"
| "setitem x k v = Inl TypeError"

text \<open>
  The time-period loop of \<^verbatim>\<open>get_mag_alert\<close>, which writes into the element itself and
  tries one format only:
  \<^verbatim>\<open>
  for time_period in ("start_time", "valid_until"):
      try:
          time = datetime.strptime(mag_alert[time_period], self._time_format_with_minutes)
          mag_alert[time_period] = time
      except KeyError:
          mag_alert[time_period] = None
  \<close>
\<close>

fun mag_alert_times :: "SpaceWeather \<Rightarrow> string list \<Rightarrow> pyval \<Rightarrow> error + pyval" where
  "mag_alert_times self [] mag_alert = Inr mag_alert"
| "mag_alert_times self (tp # rest) mag_alert =
     (case bind (getitem mag_alert tp) (\<lambda>v.
           bind (strptime v (time_format_with_minutes self)) (\<lambda>t.
             setitem mag_alert tp (PDatetime t))) of
        Inl (KeyError k) \<Rightarrow> bind (setitem mag_alert tp PNone) (mag_alert_times self rest)
      | Inl e \<Rightarrow> Inl e
      | Inr m \<Rightarrow> mag_alert_times self rest m)"

definition mag_alert_record :: "SpaceWeather \<Rightarrow> pyval \<Rightarrow> error + obj list" where
  "mag_alert_record self mag_alert =
     bind (mag_alert_times self [''start_time'', ''valid_until''] mag_alert) (\<lambda>m.
     bind (getitem m ''start_time'') (\<lambda>s.
     bind (getitem m ''valid_until'') (\<lambda>u.
     bind (getitem m ''g_scale'') (\<lambda>g.
     bind (getitem m ''description'') (\<lambda>d.
       Inr [MagAlert s u g d])))))"

definition mag_alert_response :: "SpaceWeather \<Rightarrow> response \<Rightarrow> error + obj list" where
  "mag_alert_response self r =
     bind (response_data r) (\<lambda>data.
       if truthy data
       then bind (iter data) (collect (mag_alert_record self))
       else Inr [])"

definition get_mag_alert :: "SpaceWeather \<Rightarrow> env \<Rightarrow> obj list outcome" where
  "get_mag_alert self e =
     send e \<lparr>url = base_url @ ''get-mag-alert'', timeout = 15,
              headers = headers_of self, json = PDict [(''api_key'', api_key self)]\<rparr>
       (mag_alert_response self)"

definition mag_warning_time_periods :: "(string \<times> pyval) list" where
  "mag_warning_time_periods =
     [(''issue_time'', PStr []), (''start_date'', PStr []), (''end_date'', PStr [])]"

text \<open>
  One step of the comprehension that builds \<^verbatim>\<open>days\<close>: the key of the display is
  evaluated before its value.
  \<^verbatim>\<open>
  {datetime.strptime(day_period["date"], self._time_format): day_period["forecast"]}
  \<close>
\<close>

definition day_entry :: "SpaceWeather \<Rightarrow> pyval \<Rightarrow> error + (datetime \<times> pyval) list" where
  "day_entry self day_period =
     bind (getitem day_period ''date'') (\<lambda>v.
     bind (strptime v (time_format self)) (\<lambda>t.
     bind (getitem day_period ''forecast'') (\<lambda>f.
       Inr [(t, f)])))"

definition mag_warning_record :: "SpaceWeather \<Rightarrow> pyval \<Rightarrow> error + obj list" where
  "mag_warning_record self mag_warning =
     bind (time_periods_loop self mag_warning (Some PNone) (map fst mag_warning_time_periods)
             mag_warning_time_periods) (\<lambda>tps.
     bind (getitem mag_warning ''activity'') (\<lambda>a.
     bind (iter a) (\<lambda>day_periods.
     bind (collect (day_entry self) day_periods) (\<lambda>days.
     bind (getitem mag_warning ''cause'') (\<lambda>c.
     bind (getitem mag_warning ''comments'') (\<lambda>m.
       Inr [MagWarning (dict_get tps ''issue_time'') (dict_get tps ''start_date'')
              (dict_get tps ''end_date'') c days m]))))))"

definition mag_warning_response :: "SpaceWeather \<Rightarrow> response \<Rightarrow> error + obj list" where
  "mag_warning_response self r =
     bind (response_data r) (\<lambda>data.
       if truthy data
       then bind (iter data) (collect (mag_warning_record self))
       else Inr [])"

definition get_mag_warning :: "SpaceWeather \<Rightarrow> env \<Rightarrow> obj list outcome" where
  "get_mag_warning self e =
     send e \<lparr>url = base_url @ ''get-mag-warning'', timeout = 15,
              headers = headers_of self, json = PDict [(''api_key'', api_key self)]\<rparr>
       (mag_warning_response self)"

definition time_range_message :: string where
  "time_range_message = ''Please provide a string in the format YYYY-MM-DD HH:mm:ss or a datetime object.''"

text \<open>
  The check of \<^verbatim>\<open>start\<close> and of \<^verbatim>\<open>end\<close> in \<^verbatim>\<open>_get_index\<close>; the result is the value sent.
  \<^verbatim>\<open>
  if isinstance(start, datetime):
      start = datetime.strftime(start, self._time_format_with_minutes)
  else:
      if start != "":
          try:
              datetime.strptime(start, self._time_format_with_minutes)
          except ValueError as error:
              raise ValueError("""Please provide ...""") from error
  \<close>
  The message of the source spans two lines; its line break and indentation are one blank here.
\<close>

definition check_time :: "SpaceWeather \<Rightarrow> env \<Rightarrow> pyval \<Rightarrow> error + pyval" where
  "check_time self e t =
     (case t of
        PDatetime d \<Rightarrow> Inr (PStr (strftime (pad_year e) d (time_format_with_minutes self)))
      | _ \<Rightarrow>
          if t \<noteq> PStr [] then
            (case strptime t (time_format_with_minutes self) of
               Inl (ValueError m) \<Rightarrow> Inl (ValueError time_range_message)
             | Inl err \<Rightarrow> Inl err
             | Inr d \<Rightarrow> Inr t)
          else Inr t)"

text \<open>The body of the loop \<^verbatim>\<open>for index_data in data\<close>.\<close>

definition index_record :: "SpaceWeather \<Rightarrow> string \<Rightarrow> pyval \<Rightarrow> error + obj list" where
  "index_record self index_type index_data =
     (if index_type = ''k-index'' then
        bind (getitem index_data ''valid_time'') (\<lambda>v.
        bind (strptime v (time_format_with_minutes self)) (\<lambda>vt.
        bind (getitem index_data ''analysis_time'') (\<lambda>a.
        bind (strptime a (time_format_with_minutes self)) (\<lambda>at.
        bind (getitem index_data ''index'') (\<lambda>i.
          Inr [KIndex (PDatetime vt) (PDatetime at) i])))))
      else if index_type = ''a-index'' then
        bind (getitem index_data ''valid_time'') (\<lambda>v.
        bind (strptime v (time_format_with_minutes self)) (\<lambda>vt.
        bind (getitem index_data ''index'') (\<lambda>i.
          Inr [AIndex (PDatetime vt) i])))
      else
        bind (getitem index_data ''valid_time'') (\<lambda>v.
        bind (strptime v (time_format_with_minutes self)) (\<lambda>vt.
        bind (getitem index_data ''index'') (\<lambda>i.
          Inr [DstIndex (PDatetime vt) i]))))"

text \<open>The part of \<^verbatim>\<open>_get_index\<close> after the request: the status check and the parsing.\<close>

definition index_response :: "SpaceWeather \<Rightarrow> string \<Rightarrow> response \<Rightarrow> error + obj list" where
  "index_response self index_type r =
     bind (response_data r) (\<lambda>d.
       if truthy d then
         bind (if index_type = ''a-index'' \<or> index_type = ''dst-index'' then getitem0 d else Inr d)
           (\<lambda>data. bind (iter data) (collect (index_record self index_type)))
       else Inr [])"

definition get_index ::
  "SpaceWeather \<Rightarrow> env \<Rightarrow> string \<Rightarrow> pyval \<Rightarrow> pyval \<Rightarrow> pyval \<Rightarrow> obj list outcome" where
  "get_index self e index_type start end location =
     (case check_time self e start of
        Inl err \<Rightarrow> (Inl err, [])
      | Inr start' \<Rightarrow>
          (case check_time self e end of
             Inl err \<Rightarrow> (Inl err, [])
           | Inr end' \<Rightarrow>
               send e \<lparr>url = base_url @ ''get-'' @ index_type, timeout = 15,
                        headers = headers_of self,
                        json = PDict [(''api_key'', api_key self),
                                      (''options'', PDict [(''location'', location),
                                                           (''start'', start'),
                                                           (''end'', end')])]\<rparr>
                 (index_response self index_type)))"

definition get_a_index :: "SpaceWeather \<Rightarrow> env \<Rightarrow> pyval \<Rightarrow> pyval \<Rightarrow> obj list outcome" where
  "get_a_index self e start end = get_index self e ''a-index'' start end (PStr ''Australian region'')"

definition get_k_index :: "SpaceWeather \<Rightarrow> env \<Rightarrow> pyval \<Rightarrow> pyval \<Rightarrow> pyval \<Rightarrow> obj list outcome" where
  "get_k_index self e start end location =
     (if location = PNone then get_index self e ''k-index'' start end (PStr ''Australian region'')
      else get_index self e ''k-index'' start end location)"

definition get_dst_index :: "SpaceWeather \<Rightarrow> env \<Rightarrow> pyval \<Rightarrow> pyval \<Rightarrow> obj list outcome" where
  "get_dst_index self e start end = get_index self e ''dst-index'' start end (PStr ''Australian region'')"

section \<open>Vocabulary of the properties\<close>

text \<open>The object a successful \<^verbatim>\<open>SpaceWeather(key)\<close> is: the attributes \<^verbatim>\<open>__init__\<close> sets.\<close>

definition client :: "pyval \<Rightarrow> SpaceWeather" where
  "client key = \<lparr>headers_of = default_headers, api_key = key, time_format = ''%Y-%m-%d'',
                 time_format_with_minutes = ''%Y-%m-%d %H:%M:%S''\<rparr>"

text \<open>
  A service that answers every request with \<open>r\<close>, as \<^verbatim>\<open>requests_mock\<close> does in the tests of
  the repository.
\<close>

definition service :: "response \<Rightarrow> env" where
  "service r = \<lparr>post = (\<lambda>q. Inr r), pad_year = False\<rparr>"

text \<open>The call with outcome \<open>out\<close> has issued a request that \<open>e\<close> answered with \<open>r\<close>.\<close>

definition answered :: "env \<Rightarrow> response \<Rightarrow> 'a outcome \<Rightarrow> bool" where
  "answered e r out = (\<exists>q \<in> set (snd out). post e q = Inr r)"


text \<open>The characters a piece of a regular expression can consume.\<close>

fun item_admits :: "item \<Rightarrow> char \<Rightarrow> bool" where
  "item_admits (Ch c') c = (c = c')"
| "item_admits Spaces c = is_space c"
| "item_admits (Group key alts) c = (\<exists>a \<in> set alts. \<exists>k \<in> set a. cls_match k c)"

text \<open>The regular expressions of the client's two formats.\<close>

definition date_re :: "item list" where
  "date_re =
     [Group CHR ''Y'' [[Digits 0 9, Digits 0 9, Digits 0 9, Digits 0 9]], Ch CHR ''-'',
      Group CHR ''m'' [[Digits 1 1, Digits 0 2], [Digits 0 0, Digits 1 9], [Digits 1 9]], Ch CHR ''-'',
      Group CHR ''d'' [[Digits 3 3, Digits 0 1], [Digits 1 2, Digits 0 9],
                       [Digits 0 0, Digits 1 9], [Digits 1 9], [Blank, Digits 1 9]]]"

definition time_re :: "item list" where
  "time_re =
     [Spaces,
      Group CHR ''H'' [[Digits 2 2, Digits 0 3], [Digits 0 1, Digits 0 9], [Digits 0 9]], Ch CHR '':'',
      Group CHR ''M'' [[Digits 0 5, Digits 0 9], [Digits 0 9]], Ch CHR '':'',
      Group CHR ''S'' [[Digits 6 6, Digits 0 1], [Digits 0 5, Digits 0 9], [Digits 0 9]]]"

text \<open>
  What the documentation of \<^verbatim>\<open>start\<close> and \<^verbatim>\<open>end\<close> allows: a string or a \<^verbatim>\<open>datetime\<close>.
\<close>

definition time_argument :: "pyval \<Rightarrow> bool" where
  "time_argument t = (case t of PStr s \<Rightarrow> True | PDatetime d \<Rightarrow> True | _ \<Rightarrow> False)"

text \<open>A non-empty string that \<^verbatim>\<open>strptime\<close> does not accept in the format with the time of day.\<close>

definition rejected :: "pyval \<Rightarrow> bool" where
  "rejected t =
     (case t of PStr s \<Rightarrow> s \<noteq> [] \<and> isl (strptime t ''%Y-%m-%d %H:%M:%S'') | _ \<Rightarrow> False)"








section \<open>The regular expression matcher\<close>

lemma pattern_date: "pattern ''%Y-%m-%d'' = Some date_re"
  by (simp add: directive_def is_space_def date_re_def)

lemma pattern_full: "pattern ''%Y-%m-%d %H:%M:%S'' = Some (date_re @ time_re)"
  by (simp add: directive_def is_space_def date_re_def time_re_def)

declare pattern.simps [simp del]

lemma seq_match_append: "seq_match ks s = Some (m, rest) \<Longrightarrow> s = m @ rest"
  by (induction ks s arbitrary: m rule: seq_match.induct) (auto split: if_splits option.splits)

lemma seq_match_admits:
  "seq_match ks s = Some (m, rest) \<Longrightarrow> \<forall>c \<in> set m. \<exists>k \<in> set ks. cls_match k c"
  by (induction ks s arbitrary: m rule: seq_match.induct) (fastforce split: if_splits option.splits)+

lemma literal_in_string:
  "re_match r s = Some (f, rest) \<Longrightarrow> Ch c \<in> set r \<Longrightarrow> c \<in> set s"
  "alts_match alts key r s = Some (f, rest) \<Longrightarrow> Ch c \<in> set r \<Longrightarrow> c \<in> set s"
  "spaces_match n r s = Some (f, rest) \<Longrightarrow> Ch c \<in> set r \<Longrightarrow> c \<in> set s"
proof (induction r s and alts key r s and n r s arbitrary: f and f and f
       rule: re_match_alts_match_spaces_match.induct)
  case (2 c' r s)
  then show ?case by (auto split: list.splits if_splits)
next
  case (6 a as key r s)
  show ?case
  proof (cases "seq_match a s")
    case None
    with "6.prems" have "alts_match as key r s = Some (f, rest)" by simp
    from "6.IH"(1)[OF None this "6.prems"(2)] show ?thesis .
  next
    case (Some p)
    obtain m rest' where p: "p = (m, rest')" by (cases p)
    have sm: "seq_match a s = Some (m, rest')" using Some p by simp
    have s: "s = m @ rest'" using sm by (rule seq_match_append)
    show ?thesis
    proof (cases "re_match r rest'")
      case None
      with "6.prems" sm have "alts_match as key r s = Some (f, rest)" by simp
      from "6.IH"(3)[OF sm refl None this "6.prems"(2)] show ?thesis .
    next
      case (Some q)
      obtain f' fin where q: "q = (f', fin)" by (cases q)
      have "re_match r rest' = Some (f', rest)" using Some q "6.prems"(1) sm by simp
      from "6.IH"(2)[OF sm refl this "6.prems"(2)] have "c \<in> set rest'" .
      then show ?thesis using s by simp
    qed
  qed
next
  case (8 n r s)
  show ?case
  proof (cases "re_match r (drop (Suc n) s)")
    case None
    with "8.prems" have "spaces_match n r s = Some (f, rest)" by simp
    from "8.IH"(2)[OF None this "8.prems"(2)] show ?thesis .
  next
    case (Some q)
    obtain f' fin where q: "q = (f', fin)" by (cases q)
    have "re_match r (drop (Suc n) s) = Some (f', rest)" using Some q "8.prems"(1) by simp
    from "8.IH"(1)[OF this "8.prems"(2)] have "c \<in> set (drop (Suc n) s)" .
    then show ?thesis by (rule in_set_dropD)
  qed
qed auto

lemma consumed_admitted:
  "re_match r s = Some (f, rest) \<Longrightarrow> Spaces \<notin> set r \<Longrightarrow>
     \<exists>pre. s = pre @ rest \<and> (\<forall>c \<in> set pre. \<exists>i \<in> set r. item_admits i c)"
  "alts_match alts key r s = Some (f, rest) \<Longrightarrow> Spaces \<notin> set r \<Longrightarrow>
     \<exists>pre. s = pre @ rest \<and>
       (\<forall>c \<in> set pre. item_admits (Group key alts) c \<or> (\<exists>i \<in> set r. item_admits i c))"
  "spaces_match n r s = Some (f, rest) \<Longrightarrow> True"
proof (induction r s and alts key r s and n r s arbitrary: f and f and f
       rule: re_match_alts_match_spaces_match.induct)
  case (1 s)
  then show ?case by simp
next
  case (2 c' r s)
  from "2.prems"(1) obtain xs where s: "s = c' # xs" and m: "re_match r xs = Some (f, rest)"
    by (auto split: list.splits if_splits)
  from "2.prems"(2) have ns: "Spaces \<notin> set r" by simp
  from "2.IH"[OF s refl m ns] obtain pre where
    pre: "xs = pre @ rest" "\<forall>c \<in> set pre. \<exists>i \<in> set r. item_admits i c" by blast
  have "s = (c' # pre) @ rest" using s pre(1) by simp
  moreover have "\<forall>c \<in> set (c' # pre). \<exists>i \<in> set (Ch c' # r). item_admits i c"
    using pre(2) by auto
  ultimately show ?case by blast
next
  case (3 r s)
  then show ?case by simp
next
  case (4 key alts r s)
  from "4.prems" have m: "alts_match alts key r s = Some (f, rest)" and ns: "Spaces \<notin> set r"
    by simp_all
  from "4.IH"[OF m ns] obtain pre where
    pre: "s = pre @ rest"
      "\<forall>c \<in> set pre. item_admits (Group key alts) c \<or> (\<exists>i \<in> set r. item_admits i c)"
    by blast
  have "\<forall>c \<in> set pre. \<exists>i \<in> set (Group key alts # r). item_admits i c"
  proof
    fix c assume "c \<in> set pre"
    with pre(2) have "item_admits (Group key alts) c \<or> (\<exists>i \<in> set r. item_admits i c)" by blast
    then show "\<exists>i \<in> set (Group key alts # r). item_admits i c" by auto
  qed
  with pre(1) show ?case by blast
next
  case (5 key r s)
  then show ?case by simp
next
  case (6 a as key r s)
  have weaken: "\<And>pre. \<forall>c \<in> set pre. item_admits (Group key as) c \<or> (\<exists>i \<in> set r. item_admits i c)
     \<Longrightarrow> \<forall>c \<in> set pre. item_admits (Group key (a # as)) c \<or> (\<exists>i \<in> set r. item_admits i c)"
    by auto
  show ?case
  proof (cases "seq_match a s")
    case None
    with "6.prems" have "alts_match as key r s = Some (f, rest)" by simp
    from "6.IH"(1)[OF None this "6.prems"(2)] weaken show ?thesis by blast
  next
    case (Some p)
    obtain m rest' where p: "p = (m, rest')" by (cases p)
    have sm: "seq_match a s = Some (m, rest')" using Some p by simp
    have s: "s = m @ rest'" using sm by (rule seq_match_append)
    show ?thesis
    proof (cases "re_match r rest'")
      case None
      with "6.prems" sm have "alts_match as key r s = Some (f, rest)" by simp
      from "6.IH"(3)[OF sm refl None this "6.prems"(2)] weaken show ?thesis by blast
    next
      case (Some q)
      obtain f' fin where q: "q = (f', fin)" by (cases q)
      have "re_match r rest' = Some (f', rest)" using Some q "6.prems"(1) sm by simp
      from "6.IH"(2)[OF sm refl this "6.prems"(2)] obtain pre where
        pre: "rest' = pre @ rest" "\<forall>c \<in> set pre. \<exists>i \<in> set r. item_admits i c" by blast
      have m: "\<forall>c \<in> set m. item_admits (Group key (a # as)) c"
        using seq_match_admits[OF sm] by auto
      have "s = (m @ pre) @ rest" using s pre(1) by simp
      moreover have "\<forall>c \<in> set (m @ pre).
          item_admits (Group key (a # as)) c \<or> (\<exists>i \<in> set r. item_admits i c)"
        using m pre(2) by auto
      ultimately show ?thesis by blast
    qed
  qed
qed simp_all

section \<open>Facts about \<^verbatim>\<open>strptime\<close>\<close>

lemma strptime_str_error: "strptime (PStr s) fmt = Inl e \<Longrightarrow> \<exists>m. e = ValueError m"
  by (auto simp: strptime_def Let_def split: option.splits if_splits)


lemma strptime_not_str: "(\<And>s. v \<noteq> PStr s) \<Longrightarrow> strptime v fmt = Inl TypeError"
  by (cases v) (auto simp: strptime_def)


lemma strptime_full_match:
  "strptime v ''%Y-%m-%d %H:%M:%S'' = Inr d \<Longrightarrow>
     \<exists>s f. v = PStr s \<and> re_match (date_re @ time_re) s = Some (f, [])"
  by (cases v) (auto simp: strptime_def pattern_full Let_def split: option.splits if_splits)

lemma date_re_no_colon: "i \<in> set date_re \<Longrightarrow> \<not> item_admits i CHR '':''"
  by (auto simp: date_re_def is_digit_def)

lemma date_re_no_spaces: "Spaces \<notin> set date_re"
  by (simp add: date_re_def)

lemma colon_in_full_re: "Ch CHR '':'' \<in> set (date_re @ time_re)"
  by (simp add: time_re_def)

text \<open>A string that the full format accepts is rejected by the date-only format.\<close>

lemma full_not_date:
  assumes "strptime v ''%Y-%m-%d %H:%M:%S'' = Inr d"
  shows "\<exists>m. strptime v ''%Y-%m-%d'' = Inl (ValueError m)"
proof -
  from strptime_full_match[OF assms] obtain s f where
    v: "v = PStr s" and f: "re_match (date_re @ time_re) s = Some (f, [])" by blast
  have colon: "CHR '':'' \<in> set s"
    using literal_in_string(1)[OF f colon_in_full_re] .
  have no: "re_match date_re s \<noteq> Some (g, [])" for g
  proof
    assume g: "re_match date_re s = Some (g, [])"
    from consumed_admitted(1)[OF g date_re_no_spaces] obtain pre where
      pre: "s = pre @ []" "\<forall>c \<in> set pre. \<exists>i \<in> set date_re. item_admits i c" by blast
    from pre colon have "\<exists>i \<in> set date_re. item_admits i CHR '':''" by simp
    with date_re_no_colon show False by blast
  qed
  show ?thesis
  proof (cases "re_match date_re s")
    case None
    then show ?thesis by (simp add: strptime_def v pattern_date)
  next
    case (Some p)
    obtain g rest where p: "p = (g, rest)" by (cases p)
    with Some no have "rest \<noteq> []" by auto
    with Some p show ?thesis by (simp add: strptime_def v pattern_date)
  qed
qed

section \<open>Formatting and parsing again\<close>

lemma digit_char_simps:
  "k < 10 \<Longrightarrow> is_digit (digit_char k)"
  "k < 10 \<Longrightarrow> digit_val (digit_char k) = k"
  "k < 10 \<Longrightarrow> \<not> is_space (digit_char k)"
  by (simp_all add: digit_char_def is_digit_def digit_val_def is_space_def)

lemma cls_digit: "k < 10 \<Longrightarrow> cls_match (Digits lo hi) (digit_char k) = (lo \<le> k \<and> k \<le> hi)"
  by (simp add: digit_char_simps)

lemma is_space_blank: "is_space CHR '' ''"
  by (simp add: is_space_def)

lemma match_year:
  assumes "a < 10" "b < 10" "c < 10" "d < 10" "re_match r rest = Some (f, fin)"
  shows "re_match (Group key [[Digits 0 9, Digits 0 9, Digits 0 9, Digits 0 9]] # r)
           (digit_char a # digit_char b # digit_char c # digit_char d # rest) =
         Some ((key, [digit_char a, digit_char b, digit_char c, digit_char d]) # f, fin)"
  using assms by (simp add: cls_digit del: cls_match.simps)

lemma match_month:
  assumes "a < 10" "b < 10" "(a = 1 \<and> b \<le> 2) \<or> (a = 0 \<and> 1 \<le> b)"
    "re_match r rest = Some (f, fin)"
  shows "re_match (Group key [[Digits 1 1, Digits 0 2], [Digits 0 0, Digits 1 9], [Digits 1 9]] # r)
           (digit_char a # digit_char b # rest) =
         Some ((key, [digit_char a, digit_char b]) # f, fin)"
  using assms by - (elim disjE conjE; simp add: cls_digit del: cls_match.simps)

lemma match_day:
  assumes "a < 10" "b < 10" "(a = 3 \<and> b \<le> 1) \<or> (1 \<le> a \<and> a \<le> 2) \<or> (a = 0 \<and> 1 \<le> b)"
    "re_match r rest = Some (f, fin)"
  shows "re_match (Group key [[Digits 3 3, Digits 0 1], [Digits 1 2, Digits 0 9],
                              [Digits 0 0, Digits 1 9], [Digits 1 9], [Blank, Digits 1 9]] # r)
           (digit_char a # digit_char b # rest) =
         Some ((key, [digit_char a, digit_char b]) # f, fin)"
  using assms by - (elim disjE conjE; simp add: cls_digit del: cls_match.simps)

lemma match_hour:
  assumes "a < 10" "b < 10" "(a = 2 \<and> b \<le> 3) \<or> a \<le> 1"
    "re_match r rest = Some (f, fin)"
  shows "re_match (Group key [[Digits 2 2, Digits 0 3], [Digits 0 1, Digits 0 9], [Digits 0 9]] # r)
           (digit_char a # digit_char b # rest) =
         Some ((key, [digit_char a, digit_char b]) # f, fin)"
  using assms by - (elim disjE conjE; simp add: cls_digit del: cls_match.simps)

lemma match_minute:
  assumes "a < 10" "b < 10" "a \<le> 5" "re_match r rest = Some (f, fin)"
  shows "re_match (Group key [[Digits 0 5, Digits 0 9], [Digits 0 9]] # r)
           (digit_char a # digit_char b # rest) =
         Some ((key, [digit_char a, digit_char b]) # f, fin)"
  using assms by (simp add: cls_digit del: cls_match.simps)

lemma match_second:
  assumes "a < 10" "b < 10" "a \<le> 5" "re_match r rest = Some (f, fin)"
  shows "re_match (Group key [[Digits 6 6, Digits 0 1], [Digits 0 5, Digits 0 9], [Digits 0 9]] # r)
           (digit_char a # digit_char b # rest) =
         Some ((key, [digit_char a, digit_char b]) # f, fin)"
  using assms by (simp add: cls_digit del: cls_match.simps)

lemma match_blank:
  assumes "a < 10" "re_match r (digit_char a # rest) = Some (f, fin)"
  shows "re_match (Spaces # r) (CHR '' '' # digit_char a # rest) = Some (f, fin)"
  using assms by (simp add: digit_char_simps is_space_blank)

lemma match_time:
  assumes "h1 < 10" "h2 < 10" "(h1 = 2 \<and> h2 \<le> 3) \<or> h1 \<le> 1"
    and "n1 < 10" "n2 < 10" "n1 \<le> 5"
    and "s1 < 10" "s2 < 10" "s1 \<le> 5"
  shows "re_match time_re
           (CHR '' '' # digit_char h1 # digit_char h2 # CHR '':'' # digit_char n1 # digit_char n2 #
            CHR '':'' # [digit_char s1, digit_char s2]) =
         Some ([(CHR ''H'', [digit_char h1, digit_char h2]), (CHR ''M'', [digit_char n1, digit_char n2]),
                (CHR ''S'', [digit_char s1, digit_char s2])], [])"
proof -
  have 1: "re_match [] [] = Some ([], [])" by simp
  note 2 = match_second[OF assms(7,8,9) 1, of "CHR ''S''"]
  have 3: "re_match (Ch CHR '':'' # [Group CHR ''S'' [[Digits 6 6, Digits 0 1], [Digits 0 5, Digits 0 9], [Digits 0 9]]])
             (CHR '':'' # [digit_char s1, digit_char s2]) = Some ([(CHR ''S'', [digit_char s1, digit_char s2])], [])"
    using 2 by simp
  note 4 = match_minute[OF assms(4,5,6) 3, of "CHR ''M''"]
  have 5: "re_match (Ch CHR '':'' # Group CHR ''M'' [[Digits 0 5, Digits 0 9], [Digits 0 9]] #
                     Ch CHR '':'' # [Group CHR ''S'' [[Digits 6 6, Digits 0 1], [Digits 0 5, Digits 0 9], [Digits 0 9]]])
             (CHR '':'' # digit_char n1 # digit_char n2 # CHR '':'' # [digit_char s1, digit_char s2]) =
           Some ([(CHR ''M'', [digit_char n1, digit_char n2]), (CHR ''S'', [digit_char s1, digit_char s2])], [])"
    using 4 by simp
  note 6 = match_hour[OF assms(1,2,3) 5, of "CHR ''H''"]
  show ?thesis
    unfolding time_re_def by (rule match_blank[OF assms(1) 6])
qed

lemma match_date:
  assumes "y1 < 10" "y2 < 10" "y3 < 10" "y4 < 10"
    and "m1 < 10" "m2 < 10" "(m1 = 1 \<and> m2 \<le> 2) \<or> (m1 = 0 \<and> 1 \<le> m2)"
    and "d1 < 10" "d2 < 10" "(d1 = 3 \<and> d2 \<le> 1) \<or> (1 \<le> d1 \<and> d1 \<le> 2) \<or> (d1 = 0 \<and> 1 \<le> d2)"
    and "re_match r rest = Some (f, fin)"
  shows "re_match (date_re @ r)
           (digit_char y1 # digit_char y2 # digit_char y3 # digit_char y4 # CHR ''-'' #
            digit_char m1 # digit_char m2 # CHR ''-'' # digit_char d1 # digit_char d2 # rest) =
         Some ((CHR ''Y'', [digit_char y1, digit_char y2, digit_char y3, digit_char y4]) #
               (CHR ''m'', [digit_char m1, digit_char m2]) #
               (CHR ''d'', [digit_char d1, digit_char d2]) # f, fin)"
proof -
  note 1 = match_day[OF assms(8,9,10,11), of "CHR ''d''"]
  have 2: "re_match (Ch CHR ''-'' # Group CHR ''d'' [[Digits 3 3, Digits 0 1], [Digits 1 2, Digits 0 9],
                              [Digits 0 0, Digits 1 9], [Digits 1 9], [Blank, Digits 1 9]] # r)
             (CHR ''-'' # digit_char d1 # digit_char d2 # rest) =
           Some ((CHR ''d'', [digit_char d1, digit_char d2]) # f, fin)"
    using 1 by simp
  note 3 = match_month[OF assms(5,6,7) 2, of "CHR ''m''"]
  have 4: "re_match (Ch CHR ''-'' # Group CHR ''m'' [[Digits 1 1, Digits 0 2], [Digits 0 0, Digits 1 9], [Digits 1 9]] #
                     Ch CHR ''-'' # Group CHR ''d'' [[Digits 3 3, Digits 0 1], [Digits 1 2, Digits 0 9],
                              [Digits 0 0, Digits 1 9], [Digits 1 9], [Blank, Digits 1 9]] # r)
             (CHR ''-'' # digit_char m1 # digit_char m2 # CHR ''-'' # digit_char d1 # digit_char d2 # rest) =
           Some ((CHR ''m'', [digit_char m1, digit_char m2]) #
                 (CHR ''d'', [digit_char d1, digit_char d2]) # f, fin)"
    using 3 by simp
  note 5 = match_year[OF assms(1,2,3,4) 4, of "CHR ''Y''"]
  show ?thesis
    unfolding date_re_def using 5 by simp
qed

lemma py_int2: "a < 10 \<Longrightarrow> b < 10 \<Longrightarrow> py_int [digit_char a, digit_char b] = 10 * a + b"
  by (simp add: py_int_def digit_char_simps)

lemma py_int4:
  "a < 10 \<Longrightarrow> b < 10 \<Longrightarrow> c < 10 \<Longrightarrow> e < 10 \<Longrightarrow>
   py_int [digit_char a, digit_char b, digit_char c, digit_char e] = 1000 * a + 100 * b + 10 * c + e"
  by (simp add: py_int_def digit_char_simps)

text \<open>The two digits of a number below 100, and the four digits of a number below 10000.\<close>

lemma pad2_props:
  fixes n :: nat
  assumes "n < 100"
  obtains a b where "a < 10" "b < 10" "n = 10 * a + b" "pad2 n = [digit_char a, digit_char b]"
proof -
  define a where "a = n div 10"
  define b where "b = n mod 10"
  have a: "a < 10" unfolding a_def using assms by (simp add: less_mult_imp_div_less)
  have b: "b < 10" unfolding b_def by simp
  have n: "n = 10 * a + b" unfolding a_def b_def by simp
  have "n div 10 mod 10 = n div 10" using a unfolding a_def by simp
  then have "pad2 n = [digit_char a, digit_char b]" by (simp add: pad2_def a_def b_def)
  with a b n show thesis by (rule that)
qed

lemma pad4_props:
  fixes n :: nat
  assumes "n < 10000"
  obtains a b c e where "a < 10" "b < 10" "c < 10" "e < 10"
    "n = 1000 * a + 100 * b + 10 * c + e"
    "pad4 n = [digit_char a, digit_char b, digit_char c, digit_char e]"
    "1000 \<le> n \<longrightarrow> dec n = [digit_char a, digit_char b, digit_char c, digit_char e]"
proof -
  define q1 where "q1 = n div 10"
  define q2 where "q2 = q1 div 10"
  define a where "a = q2 div 10"
  define b where "b = q2 mod 10"
  define c where "c = q1 mod 10"
  define e where "e = n mod 10"
  have q1: "q1 < 1000" unfolding q1_def using assms by (simp add: less_mult_imp_div_less)
  have q2: "q2 < 100" unfolding q2_def using q1 by (simp add: less_mult_imp_div_less)
  have a: "a < 10" unfolding a_def using q2 by (simp add: less_mult_imp_div_less)
  have b: "b < 10" unfolding b_def by simp
  have c: "c < 10" unfolding c_def by simp
  have e: "e < 10" unfolding e_def by simp
  have n1: "n = 10 * q1 + e" unfolding q1_def e_def by simp
  have n2: "q1 = 10 * q2 + c" unfolding q2_def c_def by simp
  have n3: "q2 = 10 * a + b" unfolding a_def b_def by simp
  have n: "n = 1000 * a + 100 * b + 10 * c + e" using n1 n2 n3 by arith
  have am: "a mod 10 = a" using a by simp
  have p: "pad4 n = [digit_char a, digit_char b, digit_char c, digit_char e]"
    unfolding pad4_def using am
    by (simp only: q1_def[symmetric] q2_def[symmetric] a_def[symmetric] b_def[symmetric]
          c_def[symmetric] e_def[symmetric])
  have d: "1000 \<le> n \<longrightarrow> dec n = [digit_char a, digit_char b, digit_char c, digit_char e]"
  proof
    assume that: "1000 \<le> n"
    from that n1 e have g1: "\<not> n < 10" "\<not> q1 < 10" by arith+
    from that n1 n2 e c have g2: "\<not> q2 < 10" by arith
    have 1: "dec n = dec q1 @ [digit_char e]"
      unfolding q1_def e_def using g1(1) by (subst dec.simps) simp
    have 2: "dec q1 = dec q2 @ [digit_char c]"
      unfolding q2_def c_def using g1(2) by (subst dec.simps) simp
    have 3: "dec q2 = dec a @ [digit_char b]"
      unfolding a_def b_def using g2 by (subst dec.simps) simp
    have 4: "dec a = [digit_char a]"
      using a by (subst dec.simps) simp
    show "dec n = [digit_char a, digit_char b, digit_char c, digit_char e]" by (simp add: 1 2 3 4)
  qed
  from a b c e n p d show thesis by (rule that)
qed

lemma strftime_full:
  "strftime zp d ''%Y-%m-%d %H:%M:%S'' =
     (if zp then pad4 (year d) else dec (year d)) @ CHR ''-'' # pad2 (month d) @ CHR ''-'' #
     pad2 (day d) @ CHR '' '' # pad2 (hour d) @ CHR '':'' # pad2 (minute d) @ CHR '':'' #
     pad2 (second d)"
  by (simp add: field_def)

declare strftime.simps [simp del]

lemma days_in_month_le: "days_in_month y m \<le> 31"
  by (simp add: days_in_month_def)

text \<open>
  Formatting a valid naive \<^verbatim>\<open>datetime\<close> without microseconds and parsing the result gives
  the same object, provided the year is printed with four digits.
\<close>

lemma strptime_strftime:
  assumes v: "valid_datetime d" and us: "microsecond d = 0" and tz: "tzinfo d = None"
    and y: "zp \<or> 1000 \<le> year d"
  shows "strptime (PStr (strftime zp d ''%Y-%m-%d %H:%M:%S'')) ''%Y-%m-%d %H:%M:%S'' = Inr d"
proof -
  from v have b: "1 \<le> year d" "year d < 10000" "1 \<le> month d" "month d \<le> 12" "1 \<le> day d"
    "day d \<le> 31" "hour d \<le> 23" "minute d \<le> 59" "second d \<le> 59"
    using days_in_month_le[of "year d" "month d"] by (auto simp: valid_datetime_def)
  obtain y1 y2 y3 y4 where yd: "y1 < 10" "y2 < 10" "y3 < 10" "y4 < 10"
    and ye: "year d = 1000 * y1 + 100 * y2 + 10 * y3 + y4"
    and yp: "pad4 (year d) = [digit_char y1, digit_char y2, digit_char y3, digit_char y4]"
    and yc: "1000 \<le> year d \<longrightarrow> dec (year d) = [digit_char y1, digit_char y2, digit_char y3, digit_char y4]"
    by (rule pad4_props[OF b(2)]) blast
  have "month d < 100" "day d < 100" "hour d < 100" "minute d < 100" "second d < 100"
    using b by simp_all
  note lt = this
  obtain m1 m2 where md: "m1 < 10" "m2 < 10" and me: "month d = 10 * m1 + m2"
    and mp: "pad2 (month d) = [digit_char m1, digit_char m2]"
    by (rule pad2_props[OF lt(1)]) blast
  obtain d1 d2 where dd: "d1 < 10" "d2 < 10" and de: "day d = 10 * d1 + d2"
    and dp: "pad2 (day d) = [digit_char d1, digit_char d2]"
    by (rule pad2_props[OF lt(2)]) blast
  obtain h1 h2 where hd: "h1 < 10" "h2 < 10" and he: "hour d = 10 * h1 + h2"
    and hp: "pad2 (hour d) = [digit_char h1, digit_char h2]"
    by (rule pad2_props[OF lt(3)]) blast
  obtain n1 n2 where nd: "n1 < 10" "n2 < 10" and ne: "minute d = 10 * n1 + n2"
    and np: "pad2 (minute d) = [digit_char n1, digit_char n2]"
    by (rule pad2_props[OF lt(4)]) blast
  obtain s1 s2 where sd: "s1 < 10" "s2 < 10" and se: "second d = 10 * s1 + s2"
    and sp: "pad2 (second d) = [digit_char s1, digit_char s2]"
    by (rule pad2_props[OF lt(5)]) blast
  have ystr: "(if zp then pad4 (year d) else dec (year d)) =
      [digit_char y1, digit_char y2, digit_char y3, digit_char y4]"
    using y yp yc by auto
  have mc: "(m1 = 1 \<and> m2 \<le> 2) \<or> (m1 = 0 \<and> 1 \<le> m2)"
    using b(3,4) md me by arith
  have dc: "(d1 = 3 \<and> d2 \<le> 1) \<or> (1 \<le> d1 \<and> d1 \<le> 2) \<or> (d1 = 0 \<and> 1 \<le> d2)"
    using b(5,6) dd de by arith
  have hc: "(h1 = 2 \<and> h2 \<le> 3) \<or> h1 \<le> 1"
    using b(7) hd he by arith
  have nc: "n1 \<le> 5" using b(8) nd ne by arith
  have sc: "s1 \<le> 5" using b(9) sd se by arith
  note t = match_time[OF hd hc nd nc sd sc]
  note m = match_date[OF yd md mc dd dc t]
  define s where "s = strftime zp d ''%Y-%m-%d %H:%M:%S''"
  have s: "s = digit_char y1 # digit_char y2 # digit_char y3 # digit_char y4 # CHR ''-'' #
            digit_char m1 # digit_char m2 # CHR ''-'' # digit_char d1 # digit_char d2 #
            CHR '' '' # digit_char h1 # digit_char h2 # CHR '':'' # digit_char n1 # digit_char n2 #
            CHR '':'' # [digit_char s1, digit_char s2]"
    unfolding s_def strftime_full ystr mp dp hp np sp by simp
  have re: "re_match (date_re @ time_re) s =
      Some ([(CHR ''Y'', [digit_char y1, digit_char y2, digit_char y3, digit_char y4]),
             (CHR ''m'', [digit_char m1, digit_char m2]), (CHR ''d'', [digit_char d1, digit_char d2]),
             (CHR ''H'', [digit_char h1, digit_char h2]), (CHR ''M'', [digit_char n1, digit_char n2]),
             (CHR ''S'', [digit_char s1, digit_char s2])], [])"
    unfolding s by (rule m)
  have vals: "py_int [digit_char y1, digit_char y2, digit_char y3, digit_char y4] = year d"
    "py_int [digit_char m1, digit_char m2] = month d"
    "py_int [digit_char d1, digit_char d2] = day d"
    "py_int [digit_char h1, digit_char h2] = hour d"
    "py_int [digit_char n1, digit_char n2] = minute d"
    "py_int [digit_char s1, digit_char s2] = second d"
    by (simp_all add: py_int2 py_int4 yd md dd hd nd sd ye me de he ne se)
  have d: "\<lparr>year = year d, month = month d, day = day d, hour = hour d, minute = minute d,
            second = second d, microsecond = 0, tzinfo = None\<rparr> = d"
    using us tz by simp
  have "strptime (PStr s) ''%Y-%m-%d %H:%M:%S'' = Inr d"
    using v by (simp add: strptime_def pattern_full re group_or_def vals d)
  then show ?thesis by (simp only: s_def)
qed

section \<open>Calls and responses\<close>

lemma bind_simps [simp]: "bind (Inl e) f = Inl e" "bind (Inr v) f = f v"
  by (simp_all add: bind_def)

lemma bind_Inr: "bind x f = Inr y \<Longrightarrow> \<exists>v. x = Inr v \<and> f v = Inr y"
  by (cases x) simp_all

lemma send_cases: "answered e r (send e q k) \<Longrightarrow> send e q k = (k r, [q])"
  by (auto simp: send_def answered_def)

lemma get_aurora_cases:
  "answered e r (get_aurora self e ty) \<Longrightarrow>
     \<exists>q. get_aurora self e ty = (aurora_response self ty r, [q])"
  unfolding get_aurora_def by (blast dest: send_cases)

lemma get_mag_alert_cases:
  "answered e r (get_mag_alert self e) \<Longrightarrow>
     \<exists>q. get_mag_alert self e = (mag_alert_response self r, [q])"
  unfolding get_mag_alert_def by (blast dest: send_cases)

lemma get_mag_warning_cases:
  "answered e r (get_mag_warning self e) \<Longrightarrow>
     \<exists>q. get_mag_warning self e = (mag_warning_response self r, [q])"
  unfolding get_mag_warning_def by (blast dest: send_cases)

lemma get_index_cases:
  "answered e r (get_index self e ty s t l) \<Longrightarrow>
     \<exists>q. get_index self e ty s t l = (index_response self ty r, [q])"
  by (auto simp: get_index_def answered_def send_def split: sum.splits)

lemma get_k_index_cases:
  "answered e r (get_k_index self e s t l) \<Longrightarrow>
     \<exists>q. get_k_index self e s t l = (index_response self ''k-index'' r, [q])"
  by (auto simp: get_k_index_def dest: get_index_cases split: if_splits)


lemma response_data_200:
  assumes "status_code r = 200" "body r = Some j" "getitem j ''data'' = Inr d"
  shows "response_data r = Inr d"
  using assms by (simp add: response_data_def response_json_def)

lemma responses_falsy:
  assumes "status_code r = 200" "body r = Some j" "getitem j ''data'' = Inr d" "\<not> truthy d"
  shows "aurora_response self ty r = Inr []"
    "mag_alert_response self r = Inr []"
    "mag_warning_response self r = Inr []"
    "index_response self ty r = Inr []"
  using assms(4)
  by (simp_all add: aurora_response_def mag_alert_response_def mag_warning_response_def
        index_response_def response_data_200[OF assms(1,2,3)])

lemma responses_list:
  assumes "status_code r = 200" "body r = Some j" "getitem j ''data'' = Inr (PList (x # xs))"
  shows "aurora_response self ty r = collect (aurora_record self ty) (x # xs)"
    "mag_alert_response self r = collect (mag_alert_record self) (x # xs)"
    "mag_warning_response self r = collect (mag_warning_record self) (x # xs)"
    "index_response self ''k-index'' r = collect (index_record self ''k-index'') (x # xs)"
    "index_response self ''a-index'' r = bind (iter x) (collect (index_record self ''a-index''))"
    "index_response self ''dst-index'' r = bind (iter x) (collect (index_record self ''dst-index''))"
  by (simp_all add: aurora_response_def mag_alert_response_def mag_warning_response_def
        index_response_def response_data_200[OF assms])

lemma init_client: "fst (init e key) = Inr self \<Longrightarrow> self = client key"
  by (auto simp: init_def client_def verify_api_key_def send_def bind_def raise_for_status_def
        split: sum.splits prod.splits if_splits)

lemma client_simps [simp]:
  "time_format (client key) = ''%Y-%m-%d''"
  "time_format_with_minutes (client key) = ''%Y-%m-%d %H:%M:%S''"
  "api_key (client key) = key"
  "headers_of (client key) = default_headers"
  by (simp_all add: client_def)

lemmas strptime_eval =
  strptime_def pattern_full pattern_date date_re_def time_re_def is_digit_def digit_val_def
  is_space_def py_int_def group_or_def valid_datetime_def days_in_month_def is_leap_def

section \<open>Claims about requests, status codes and the data field\<close>



text \<open>
  C3, as the code has it. For every endpoint, a response with status 200 whose body has a
  \<^verbatim>\<open>data\<close> field that is empty (\<^verbatim>\<open>[]\<close>, \<^verbatim>\<open>{}\<close>, \<^verbatim>\<open>""\<close>, \<^verbatim>\<open>null\<close>, \<^verbatim>\<open>false\<close> or \<^verbatim>\<open>0\<close>)
  makes the call return the empty list. (A body without the key \<^verbatim>\<open>data\<close> is not covered:
  there \<^verbatim>\<open>response.json()["data"]\<close> raises \<^verbatim>\<open>KeyError\<close>.)
\<close>

theorem empty_data_gives_empty_list:
  assumes "status_code r = 200" and "body r = Some j" and "getitem j ''data'' = Inr d"
    and "\<not> truthy d"
  shows
    "(answered e r (get_aurora_outlook self e) \<longrightarrow> fst (get_aurora_outlook self e) = Inr []) \<and>
     (answered e r (get_aurora_watch self e) \<longrightarrow> fst (get_aurora_watch self e) = Inr []) \<and>
     (answered e r (get_aurora_alert self e) \<longrightarrow> fst (get_aurora_alert self e) = Inr []) \<and>
     (answered e r (get_mag_alert self e) \<longrightarrow> fst (get_mag_alert self e) = Inr []) \<and>
     (answered e r (get_mag_warning self e) \<longrightarrow> fst (get_mag_warning self e) = Inr []) \<and>
     (answered e r (get_a_index self e s t) \<longrightarrow> fst (get_a_index self e s t) = Inr []) \<and>
     (answered e r (get_k_index self e s t l) \<longrightarrow> fst (get_k_index self e s t l) = Inr []) \<and>
     (answered e r (get_dst_index self e s t) \<longrightarrow> fst (get_dst_index self e s t) = Inr [])"
proof -
  note R = responses_falsy[OF assms]
  have a: "answered e r (get_aurora self e ty) \<longrightarrow> fst (get_aurora self e ty) = Inr []" for ty
    using get_aurora_cases[of e r self ty] R(1) by auto
  have ma: "answered e r (get_mag_alert self e) \<longrightarrow> fst (get_mag_alert self e) = Inr []"
    using get_mag_alert_cases[of e r self] R(2) by auto
  have mw: "answered e r (get_mag_warning self e) \<longrightarrow> fst (get_mag_warning self e) = Inr []"
    using get_mag_warning_cases[of e r self] R(3) by auto
  have i: "answered e r (get_index self e ty s t loc) \<longrightarrow> fst (get_index self e ty s t loc) = Inr []"
    for ty loc
    using get_index_cases[of e r self ty s t loc] R(4) by auto
  have k: "answered e r (get_k_index self e s t l) \<longrightarrow> fst (get_k_index self e s t l) = Inr []"
    using get_k_index_cases[of e r self s t l] R(4) by auto
  show ?thesis
    unfolding get_aurora_outlook_def get_aurora_watch_def get_aurora_alert_def get_a_index_def
      get_dst_index_def
    using a ma mw i k by blast
qed

theorem empty_data_gives_empty_list_witness:
  "status_code \<lparr>status_code = 200, body = Some (PDict [(''data'', PList [])])\<rparr> = 200 \<and>
   getitem (PDict [(''data'', PList [])]) ''data'' = Inr (PList []) \<and> \<not> truthy (PList []) \<and>
   answered (service \<lparr>status_code = 200, body = Some (PDict [(''data'', PList [])])\<rparr>)
     \<lparr>status_code = 200, body = Some (PDict [(''data'', PList [])])\<rparr>
     (get_k_index (client (PStr ''valid_api_key''))
        (service \<lparr>status_code = 200, body = Some (PDict [(''data'', PList [])])\<rparr>) (PStr []) (PStr []) PNone) \<and>
   fst (get_k_index (client (PStr ''valid_api_key''))
        (service \<lparr>status_code = 200, body = Some (PDict [(''data'', PList [])])\<rparr>) (PStr []) (PStr []) PNone) = Inr []"
  using empty_data_gives_empty_list[of
      "\<lparr>status_code = 200, body = Some (PDict [(''data'', PList [])])\<rparr>"
      "PDict [(''data'', PList [])]" "PList []"
      "service \<lparr>status_code = 200, body = Some (PDict [(''data'', PList [])])\<rparr>"
      "client (PStr ''valid_api_key'')" "PStr []" "PStr []" PNone]
  by (simp add: answered_def service_def get_k_index_def get_index_def check_time_def send_def)

theorem absent_data_counterexample:
  "fst (get_aurora_outlook (client (PStr ''valid_api_key''))
         (service \<lparr>status_code = 200, body = Some (PDict [])\<rparr>)) = Inl (KeyError (PStr ''data''))"
  by (simp add: get_aurora_outlook_def get_aurora_def send_def service_def aurora_response_def
        response_data_def response_json_def)

text \<open>
  C5, as the code has it. The probe of the constructor decides its outcome: status 403
  raises \<^verbatim>\<open>ValueError\<close>; any other status from 400 to 599 raises \<^verbatim>\<open>requests.HTTPError\<close>
  (\<^verbatim>\<open>raise_for_status\<close>); every other status, 200 among them, yields the client, which holds
  the credential as supplied, and every request of every later call carries that
  credential as its \<^verbatim>\<open>api_key\<close>.
\<close>

theorem construction_outcome:
  assumes "answered e r (init e key)"
  shows
    "(status_code r = 403 \<longrightarrow>
        fst (init e key) = Inl (ValueError ''HTTP Error 403 - please pass a valid API key.'')) \<and>
     (status_code r \<noteq> 403 \<and> 400 \<le> status_code r \<and> status_code r < 600 \<longrightarrow>
        (\<exists>m. fst (init e key) = Inl (HTTPError m))) \<and>
     (status_code r < 400 \<or> 600 \<le> status_code r \<longrightarrow>
        fst (init e key) = Inr (client key) \<and> api_key (client key) = key \<and>
        (\<forall>q \<in> set (snd (get_aurora (client key) e' ty)). getitem (json q) ''api_key'' = Inr key) \<and>
        (\<forall>q \<in> set (snd (get_mag_alert (client key) e')). getitem (json q) ''api_key'' = Inr key) \<and>
        (\<forall>q \<in> set (snd (get_mag_warning (client key) e')). getitem (json q) ''api_key'' = Inr key) \<and>
        (\<forall>q \<in> set (snd (get_index (client key) e' ity s t l)). getitem (json q) ''api_key'' = Inr key))"
proof -
  from assms have p: "post e \<lparr>url = base_url @ ''get-k-index'', timeout = 15, headers = default_headers,
              json = PDict [(''api_key'', key),
                            (''options'', PDict [(''location'', PStr ''Australian region'')])]\<rparr> = Inr r"
    by (auto simp: answered_def init_def verify_api_key_def send_def split: sum.splits prod.splits)
  have 1: "status_code r = 403 \<longrightarrow>
        fst (init e key) = Inl (ValueError ''HTTP Error 403 - please pass a valid API key.'')"
    using p by (simp add: init_def verify_api_key_def send_def)
  have 2: "status_code r \<noteq> 403 \<and> 400 \<le> status_code r \<and> status_code r < 600 \<longrightarrow>
        (\<exists>m. fst (init e key) = Inl (HTTPError m))"
    using p by (simp add: init_def verify_api_key_def send_def raise_for_status_def)
  have 3: "status_code r < 400 \<or> 600 \<le> status_code r \<longrightarrow> fst (init e key) = Inr (client key)"
    using p by (auto simp: init_def verify_api_key_def send_def raise_for_status_def client_def)
  have 4: "\<forall>q \<in> set (snd (get_aurora (client key) e' ty)). getitem (json q) ''api_key'' = Inr key"
    by (simp add: get_aurora_def send_def)
  have 5: "\<forall>q \<in> set (snd (get_mag_alert (client key) e')). getitem (json q) ''api_key'' = Inr key"
    by (simp add: get_mag_alert_def send_def)
  have 6: "\<forall>q \<in> set (snd (get_mag_warning (client key) e')). getitem (json q) ''api_key'' = Inr key"
    by (simp add: get_mag_warning_def send_def)
  have 7: "\<forall>q \<in> set (snd (get_index (client key) e' ity s t l)). getitem (json q) ''api_key'' = Inr key"
    by (auto simp: get_index_def send_def split: sum.splits)
  from 1 2 3 4 5 6 7 show ?thesis by simp
qed

theorem construction_outcome_witness:
  "answered (service \<lparr>status_code = 200, body = None\<rparr>) \<lparr>status_code = 200, body = None\<rparr>
     (init (service \<lparr>status_code = 200, body = None\<rparr>) (PStr ''valid_api_key'')) \<and>
   fst (init (service \<lparr>status_code = 200, body = None\<rparr>) (PStr ''valid_api_key'')) =
     Inr (client (PStr ''valid_api_key'')) \<and>
   map (\<lambda>q. getitem (json q) ''api_key'')
     (snd (get_mag_alert (client (PStr ''valid_api_key''))
            (service \<lparr>status_code = 200, body = None\<rparr>))) = [Inr (PStr ''valid_api_key'')]"
  using construction_outcome[of "service \<lparr>status_code = 200, body = None\<rparr>"
      "\<lparr>status_code = 200, body = None\<rparr>" "PStr ''valid_api_key''"
      "service \<lparr>status_code = 200, body = None\<rparr>"]
  by (simp add: answered_def service_def init_def verify_api_key_def send_def raise_for_status_def
        get_mag_alert_def)

theorem construction_304_counterexample:
  "fst (init (service \<lparr>status_code = 304, body = None\<rparr>) (PStr ''0000'')) = Inr (client (PStr ''0000''))"
  by (simp add: init_def verify_api_key_def send_def service_def raise_for_status_def client_def)

section \<open>Claims about the time range of the index methods\<close>

lemma check_time_rejected:
  assumes "rejected t"
  shows "check_time (client key) e t = Inl (ValueError time_range_message)"
proof -
  from assms obtain s where t: "t = PStr s" and s: "s \<noteq> []"
    and l: "isl (strptime t ''%Y-%m-%d %H:%M:%S'')"
    by (auto simp: rejected_def split: pyval.splits)
  from l obtain err where err: "strptime t ''%Y-%m-%d %H:%M:%S'' = Inl err"
    by (cases "strptime t ''%Y-%m-%d %H:%M:%S''") auto
  with t obtain m where "err = ValueError m" using strptime_str_error by blast
  with err t s show ?thesis by (simp add: check_time_def)
qed

lemma check_time_argument:
  assumes "time_argument t"
  shows "check_time (client key) e t = Inl (ValueError time_range_message) \<or>
         (\<exists>v. check_time (client key) e t = Inr v)"
proof (cases t)
  case (PStr s)
  show ?thesis
  proof (cases "strptime t ''%Y-%m-%d %H:%M:%S''")
    case (Inl err)
    with PStr obtain m where "err = ValueError m" using strptime_str_error by blast
    with Inl PStr show ?thesis by (simp add: check_time_def)
  next
    case (Inr d)
    with PStr show ?thesis by (simp add: check_time_def)
  qed
next
  case (PDatetime d)
  then show ?thesis by (simp add: check_time_def)
qed (use assms in \<open>simp_all add: time_argument_def\<close>)

lemma get_index_rejected:
  assumes "rejected start \<or> (time_argument start \<and> rejected end)"
  shows "get_index (client key) e ty start end l = (Inl (ValueError time_range_message), [])"
  using assms
proof
  assume "rejected start"
  then show ?thesis by (simp add: get_index_def check_time_rejected)
next
  assume a: "time_argument start \<and> rejected end"
  with check_time_argument[of start key e]
  show ?thesis by (auto simp: get_index_def check_time_rejected)
qed

text \<open>
  C4, as the code has it. For \<^verbatim>\<open>get_a_index\<close>, \<^verbatim>\<open>get_k_index\<close> and \<^verbatim>\<open>get_dst_index\<close>, a
  \<^verbatim>\<open>start\<close> or \<^verbatim>\<open>end\<close> string that is not empty and that
  \<^verbatim>\<open>datetime.strptime(_, "%Y-%m-%d %H:%M:%S")\<close> does not accept makes the call raise
  \<^verbatim>\<open>ValueError\<close> with the message of \<^verbatim>\<open>_get_index\<close>, and no request has been issued.
  (For a rejected \<^verbatim>\<open>end\<close>, \<^verbatim>\<open>start\<close> is a string or a \<^verbatim>\<open>datetime\<close>, as documented.) What
  \<^verbatim>\<open>strptime\<close> accepts is more than the strings of the exact shape
  \<^verbatim>\<open>YYYY-MM-DD HH:mm:ss\<close>: fields without their leading zero and any run of white space
  between date and time are accepted too.
\<close>

theorem malformed_time_range_raises_before_request:
  assumes "fst (init e0 key) = Inr self"
    and "rejected start \<or> (time_argument start \<and> rejected end)"
  shows "get_a_index self e start end = (Inl (ValueError time_range_message), []) \<and>
         get_k_index self e start end l = (Inl (ValueError time_range_message), []) \<and>
         get_dst_index self e start end = (Inl (ValueError time_range_message), [])"
proof -
  have self: "self = client key" using assms(1) by (rule init_client)
  show ?thesis
    unfolding self get_a_index_def get_k_index_def get_dst_index_def
    using get_index_rejected[OF assms(2)] by simp
qed

lemma strptime_2024: "strptime (PStr ''2024'') ''%Y-%m-%d %H:%M:%S'' = Inl (ValueError ''time data does not match format'')"
  by (simp add: strptime_eval)

lemma init_service_200:
  "fst (init (service \<lparr>status_code = 200, body = None\<rparr>) key) = Inr (client key)"
  by (simp add: init_def verify_api_key_def send_def service_def raise_for_status_def client_def)

theorem malformed_time_range_raises_before_request_witness:
  "fst (init (service \<lparr>status_code = 200, body = None\<rparr>) (PStr ''valid_api_key'')) =
     Inr (client (PStr ''valid_api_key'')) \<and>
   rejected (PStr ''2024'') \<and>
   get_a_index (client (PStr ''valid_api_key'')) (service \<lparr>status_code = 200, body = None\<rparr>)
     (PStr ''2024'') (PStr ''2024-01-01 00:00:00'') = (Inl (ValueError time_range_message), [])"
  using malformed_time_range_raises_before_request[of "service \<lparr>status_code = 200, body = None\<rparr>"
      "PStr ''valid_api_key''" "client (PStr ''valid_api_key'')" "PStr ''2024''"
      "PStr ''2024-01-01 00:00:00''" "service \<lparr>status_code = 200, body = None\<rparr>"]
  by (simp add: init_service_200 rejected_def strptime_2024)

lemma strptime_unpadded:
  "strptime (PStr ''2024-1-5 3:4:5'') ''%Y-%m-%d %H:%M:%S'' =
     Inr \<lparr>year = 2024, month = 1, day = 5, hour = 3, minute = 4, second = 5, microsecond = 0,
          tzinfo = None\<rparr>"
  by (simp add: strptime_eval)

theorem unpadded_start_counterexample:
  "''2024-1-5 3:4:5'' \<noteq> [] \<and> length ''2024-1-5 3:4:5'' \<noteq> length ''YYYY-MM-DD HH:mm:ss'' \<and>
   get_a_index (client (PStr ''valid_api_key''))
     (service \<lparr>status_code = 200, body = Some (PDict [(''data'', PList [])])\<rparr>)
     (PStr ''2024-1-5 3:4:5'') (PStr []) =
   (Inr [],
    [\<lparr>url = base_url @ ''get-a-index'', timeout = 15, headers = default_headers,
      json = PDict [(''api_key'', PStr ''valid_api_key''),
                    (''options'', PDict [(''location'', PStr ''Australian region''),
                                         (''start'', PStr ''2024-1-5 3:4:5''),
                                         (''end'', PStr [])])]\<rparr>])"
  by (simp add: get_a_index_def get_index_def check_time_def strptime_unpadded send_def service_def
        index_response_def response_data_def response_json_def)

text \<open>
  C9, as the code has it. A \<^verbatim>\<open>datetime\<close> given as \<^verbatim>\<open>start\<close> that is naive, has no
  microseconds and whose year is printed with four digits (any year where \<^verbatim>\<open>%Y\<close> is
  zero-filled, a year from 1000 on elsewhere) is sent as a string that the format of the
  response mapper parses back to the same \<^verbatim>\<open>datetime\<close>; echoed as \<^verbatim>\<open>valid_time\<close> of an
  element, it is the \<^verbatim>\<open>valid_time\<close> of the resulting record.
\<close>

theorem start_datetime_round_trip:
  assumes "fst (init e0 key) = Inr self"
    and "valid_datetime d" and "microsecond d = 0" and "tzinfo d = None"
    and "pad_year e \<or> 1000 \<le> year d"
  shows "\<exists>s. check_time self e (PDatetime d) = Inr (PStr s) \<and>
             strptime (PStr s) (time_format_with_minutes self) = Inr d \<and>
             index_record self ''a-index'' (PDict [(''valid_time'', PStr s), (''index'', i)]) =
               Inr [AIndex (PDatetime d) i]"
proof -
  have self: "self = client key" using assms(1) by (rule init_client)
  let ?s = "strftime (pad_year e) d ''%Y-%m-%d %H:%M:%S''"
  have p: "strptime (PStr ?s) ''%Y-%m-%d %H:%M:%S'' = Inr d"
    using assms(2-5) by (rule strptime_strftime)
  have "check_time self e (PDatetime d) = Inr (PStr ?s)"
    by (simp add: self check_time_def)
  moreover have "strptime (PStr ?s) (time_format_with_minutes self) = Inr d"
    using p by (simp add: self)
  moreover have "index_record self ''a-index'' (PDict [(''valid_time'', PStr ?s), (''index'', i)]) =
      Inr [AIndex (PDatetime d) i]"
    using p by (simp add: self index_record_def)
  ultimately show ?thesis by blast
qed

theorem start_datetime_round_trip_witness:
  "fst (init (service \<lparr>status_code = 200, body = None\<rparr>) (PStr ''valid_api_key'')) =
     Inr (client (PStr ''valid_api_key'')) \<and>
   valid_datetime \<lparr>year = 2021, month = 12, day = 4, hour = 0, minute = 0, second = 0,
                   microsecond = 0, tzinfo = None\<rparr> \<and>
   (\<exists>s. check_time (client (PStr ''valid_api_key'')) (service \<lparr>status_code = 200, body = None\<rparr>)
           (PDatetime \<lparr>year = 2021, month = 12, day = 4, hour = 0, minute = 0, second = 0,
                       microsecond = 0, tzinfo = None\<rparr>) = Inr (PStr s) \<and>
        strptime (PStr s) ''%Y-%m-%d %H:%M:%S'' =
          Inr \<lparr>year = 2021, month = 12, day = 4, hour = 0, minute = 0, second = 0,
               microsecond = 0, tzinfo = None\<rparr> \<and>
        index_record (client (PStr ''valid_api_key'')) ''a-index''
          (PDict [(''valid_time'', PStr s), (''index'', PInt 5)]) =
          Inr [AIndex (PDatetime \<lparr>year = 2021, month = 12, day = 4, hour = 0, minute = 0,
                                  second = 0, microsecond = 0, tzinfo = None\<rparr>) (PInt 5)])"
  using start_datetime_round_trip[of "service \<lparr>status_code = 200, body = None\<rparr>"
      "PStr ''valid_api_key''" "client (PStr ''valid_api_key'')"
      "\<lparr>year = 2021, month = 12, day = 4, hour = 0, minute = 0, second = 0,
        microsecond = 0, tzinfo = None\<rparr>" "service \<lparr>status_code = 200, body = None\<rparr>" "PInt 5"]
  by (simp add: init_service_200 valid_datetime_def days_in_month_def is_leap_def)

lemma strftime_microsecond:
  "strftime zp (d\<lparr>microsecond := u\<rparr>) ''%Y-%m-%d %H:%M:%S'' = strftime zp d ''%Y-%m-%d %H:%M:%S''"
  by (simp add: strftime_full)

theorem microsecond_counterexample:
  "check_time (client (PStr ''valid_api_key'')) (service \<lparr>status_code = 200, body = None\<rparr>)
     (PDatetime \<lparr>year = 2024, month = 1, day = 1, hour = 0, minute = 0, second = 0,
                 microsecond = 500000, tzinfo = None\<rparr>) =
     Inr (PStr (strftime False \<lparr>year = 2024, month = 1, day = 1, hour = 0, minute = 0, second = 0,
                                microsecond = 500000, tzinfo = None\<rparr> ''%Y-%m-%d %H:%M:%S'')) \<and>
   strptime (PStr (strftime False \<lparr>year = 2024, month = 1, day = 1, hour = 0, minute = 0, second = 0,
                                   microsecond = 500000, tzinfo = None\<rparr> ''%Y-%m-%d %H:%M:%S''))
     ''%Y-%m-%d %H:%M:%S'' =
     Inr \<lparr>year = 2024, month = 1, day = 1, hour = 0, minute = 0, second = 0,
          microsecond = 0, tzinfo = None\<rparr> \<and>
   \<lparr>year = 2024, month = 1, day = 1, hour = 0, minute = 0, second = 0,
    microsecond = 0, tzinfo = None\<rparr> \<noteq>
   \<lparr>year = 2024, month = 1, day = 1, hour = 0, minute = 0, second = 0,
    microsecond = 500000, tzinfo = (None :: int option)\<rparr>"
proof -
  let ?d = "\<lparr>year = 2024, month = 1, day = 1, hour = 0, minute = 0, second = 0,
             microsecond = 0, tzinfo = None\<rparr>"
  have "strptime (PStr (strftime False ?d ''%Y-%m-%d %H:%M:%S'')) ''%Y-%m-%d %H:%M:%S'' = Inr ?d"
    by (rule strptime_strftime) (simp_all add: valid_datetime_def days_in_month_def is_leap_def)
  moreover have "strftime False (?d\<lparr>microsecond := 500000\<rparr>) ''%Y-%m-%d %H:%M:%S'' =
      strftime False ?d ''%Y-%m-%d %H:%M:%S''"
    by (rule strftime_microsecond)
  ultimately show ?thesis
    by (simp add: check_time_def service_def)
qed

section \<open>Claim about the nesting of the element list\<close>




section \<open>Loops over the elements\<close>

lemma collect_fails: "x \<in> set xs \<Longrightarrow> f x = Inl err \<Longrightarrow> \<exists>err'. collect f xs = Inl err'"
  by (induction xs) (auto split: sum.splits)


lemma collect_singletons:
  assumes "collect f xs = Inr ys"
    and "\<And>x zs. x \<in> set xs \<Longrightarrow> f x = Inr zs \<Longrightarrow> length zs = 1"
  shows "length ys = length xs \<and> (\<forall>n < length xs. f (xs ! n) = Inr [ys ! n])"
  using assms
proof (induction xs arbitrary: ys)
  case Nil
  then show ?case by simp
next
  case (Cons x xs)
  from Cons.prems(1) obtain zs ws where f: "f x = Inr zs" and c: "collect f xs = Inr ws"
    and ys: "ys = zs @ ws"
    by (auto split: sum.splits)
  from Cons.prems(2)[of x zs] f have "length zs = 1" by simp
  then obtain z where z: "zs = [z]" by (cases zs) auto
  have p2: "\<And>y us. y \<in> set xs \<Longrightarrow> f y = Inr us \<Longrightarrow> length us = 1"
    using Cons.prems(2) by auto
  have ih: "length ws = length xs \<and> (\<forall>n < length xs. f (xs ! n) = Inr [ws ! n])"
    by (rule Cons.IH[OF c p2])
  have "f ((x # xs) ! n) = Inr [ys ! n]" if "n < length (x # xs)" for n
  proof (cases n)
    case 0
    then show ?thesis using f z ys by simp
  next
    case (Suc k)
    with that ih ys z show ?thesis by simp
  qed
  with ih ys z show ?case by simp
qed

lemma day_entry_Inr:
  assumes "day_entry self a = Inr ps"
  shows "\<exists>v t f. ps = [(t, f)] \<and> getitem a ''date'' = Inr v \<and>
           strptime v (time_format self) = Inr t \<and> getitem a ''forecast'' = Inr f"
  using assms unfolding day_entry_def by (auto dest!: bind_Inr)

lemma mag_warning_record_Inr:
  assumes "mag_warning_record self w = Inr os"
  shows "\<exists>tps a day_periods days c m.
           os = [MagWarning (dict_get tps ''issue_time'') (dict_get tps ''start_date'')
                   (dict_get tps ''end_date'') c days m] \<and>
           time_periods_loop self w (Some PNone) (map fst mag_warning_time_periods)
             mag_warning_time_periods = Inr tps \<and>
           getitem w ''activity'' = Inr a \<and> iter a = Inr day_periods \<and>
           collect (day_entry self) day_periods = Inr days \<and>
           getitem w ''cause'' = Inr c \<and> getitem w ''comments'' = Inr m"
  using assms unfolding mag_warning_record_def by (auto dest!: bind_Inr)

lemma mag_warning_record_activity_fails:
  assumes "getitem w ''activity'' = Inr (PList es)" and "collect (day_entry self) es = Inl err"
  shows "\<exists>err'. mag_warning_record self w = Inl err'"
proof (cases "time_periods_loop self w (Some PNone) (map fst mag_warning_time_periods)
                mag_warning_time_periods")
  case (Inl e)
  then show ?thesis by (simp add: mag_warning_record_def)
next
  case (Inr tps)
  with assms show ?thesis by (simp add: mag_warning_record_def)
qed

section \<open>Claims about the activity of a mag warning\<close>

text \<open>
  C7. For every mag-warning element whose \<^verbatim>\<open>activity\<close> is an array, a successful call maps
  the array element by element to the sequence of pairs (date parsed with
  \<^verbatim>\<open>"%Y-%m-%d"\<close>, forecast): the sequence is as long as the array and its n-th pair comes
  from the n-th entry, so that the order is kept and entries with the same date stay apart.
\<close>

theorem activity_pairs_in_order:
  assumes "fst (init e0 key) = Inr self"
    and "answered e r (get_mag_warning self e)"
    and "status_code r = 200" and "body r = Some j"
    and "getitem j ''data'' = Inr (PList ws)"
    and "fst (get_mag_warning self e) = Inr rs"
    and "k < length ws" and "getitem (ws ! k) ''activity'' = Inr (PList es)"
  shows "length rs = length ws \<and>
         (\<exists>i s u c days m. rs ! k = MagWarning i s u c days m \<and> length days = length es \<and>
            (\<forall>n < length es. \<exists>v. getitem (es ! n) ''date'' = Inr v \<and>
                strptime v ''%Y-%m-%d'' = Inr (fst (days ! n)) \<and>
                getitem (es ! n) ''forecast'' = Inr (snd (days ! n))))"
proof -
  have self: "self = client key" using assms(1) by (rule init_client)
  from assms(7) obtain x xs where ws: "ws = x # xs" by (cases ws) auto
  from get_mag_warning_cases[OF assms(2)] responses_list(3)[OF assms(3,4) assms(5)[unfolded ws]] assms(6)
  have c: "collect (mag_warning_record self) ws = Inr rs" by (auto simp: ws)
  have one: "\<And>w zs. w \<in> set ws \<Longrightarrow> mag_warning_record self w = Inr zs \<Longrightarrow> length zs = 1"
    by (auto dest: mag_warning_record_Inr)
  from collect_singletons[OF c one] assms(7)
  have len: "length rs = length ws" and rk: "mag_warning_record self (ws ! k) = Inr [rs ! k]"
    by auto
  from mag_warning_record_Inr[OF rk] assms(8) obtain tps days c' m where
    eq: "rs ! k = MagWarning (dict_get tps ''issue_time'') (dict_get tps ''start_date'')
                   (dict_get tps ''end_date'') c' days m"
    and d: "collect (day_entry self) es = Inr days"
    by auto
  have one': "\<And>a zs. a \<in> set es \<Longrightarrow> day_entry self a = Inr zs \<Longrightarrow> length zs = 1"
    by (auto dest: day_entry_Inr)
  from collect_singletons[OF d one']
  have dl: "length days = length es" and dn: "\<forall>n < length es. day_entry self (es ! n) = Inr [days ! n]"
    by auto
  have "\<exists>v. getitem (es ! n) ''date'' = Inr v \<and> strptime v ''%Y-%m-%d'' = Inr (fst (days ! n)) \<and>
          getitem (es ! n) ''forecast'' = Inr (snd (days ! n))" if "n < length es" for n
  proof -
    from dn that have "day_entry self (es ! n) = Inr [days ! n]" by simp
    from day_entry_Inr[OF this] show ?thesis by (auto simp: self)
  qed
  with len eq dl show ?thesis by blast
qed

lemma strptime_20150302:
  "strptime (PStr ''2015-03-02'') ''%Y-%m-%d %H:%M:%S'' = Inl (ValueError ''time data does not match format'')"
  "strptime (PStr ''2015-03-02'') ''%Y-%m-%d'' =
     Inr \<lparr>year = 2015, month = 3, day = 2, hour = 0, minute = 0, second = 0, microsecond = 0,
          tzinfo = None\<rparr>"
  by (simp_all add: strptime_eval)

lemma same_date_warning:
  "get_mag_warning (client (PStr ''valid_api_key''))
     (service \<lparr>status_code = 200, body = Some (PDict [(''data'', PList [PDict
        [(''cause'', PStr ''coronal hole''),
         (''activity'', PList [PDict [(''date'', PStr ''2015-03-02''), (''forecast'', PStr ''Unsettled'')],
                               PDict [(''date'', PStr ''2015-03-02''), (''forecast'', PStr ''Minor storm'')]]),
         (''comments'', PStr [])]])])\<rparr>) =
   (Inr [MagWarning PNone PNone PNone (PStr ''coronal hole'')
           [(\<lparr>year = 2015, month = 3, day = 2, hour = 0, minute = 0, second = 0, microsecond = 0,
              tzinfo = None\<rparr>, PStr ''Unsettled''),
            (\<lparr>year = 2015, month = 3, day = 2, hour = 0, minute = 0, second = 0, microsecond = 0,
              tzinfo = None\<rparr>, PStr ''Minor storm'')]
           (PStr [])],
    [\<lparr>url = base_url @ ''get-mag-warning'', timeout = 15, headers = default_headers,
      json = PDict [(''api_key'', PStr ''valid_api_key'')]\<rparr>])"
  by (simp add: get_mag_warning_def send_def service_def mag_warning_response_def response_data_def
        response_json_def mag_warning_record_def mag_warning_time_periods_def parse_time_period_def
        day_entry_def dict_get_def strptime_20150302)

theorem activity_pairs_in_order_witness:
  "fst (init (service \<lparr>status_code = 200, body = None\<rparr>) (PStr ''valid_api_key'')) =
     Inr (client (PStr ''valid_api_key'')) \<and>
   (\<exists>rs i s u c days m.
      fst (get_mag_warning (client (PStr ''valid_api_key''))
        (service \<lparr>status_code = 200, body = Some (PDict [(''data'', PList [PDict
          [(''cause'', PStr ''coronal hole''),
           (''activity'', PList [PDict [(''date'', PStr ''2015-03-02''), (''forecast'', PStr ''Unsettled'')],
                                 PDict [(''date'', PStr ''2015-03-02''), (''forecast'', PStr ''Minor storm'')]]),
           (''comments'', PStr [])]])])\<rparr>)) = Inr rs \<and>
      rs ! 0 = MagWarning i s u c days m \<and> length days = 2)"
proof -
  let ?es = "[PDict [(''date'', PStr ''2015-03-02''), (''forecast'', PStr ''Unsettled'')],
              PDict [(''date'', PStr ''2015-03-02''), (''forecast'', PStr ''Minor storm'')]]"
  let ?w = "PDict [(''cause'', PStr ''coronal hole''), (''activity'', PList ?es), (''comments'', PStr [])]"
  let ?j = "PDict [(''data'', PList [?w])]"
  let ?r = "\<lparr>status_code = 200, body = Some ?j\<rparr>"
  let ?rs = "[MagWarning PNone PNone PNone (PStr ''coronal hole'')
           [(\<lparr>year = 2015, month = 3, day = 2, hour = 0, minute = 0, second = 0, microsecond = 0,
              tzinfo = None\<rparr>, PStr ''Unsettled''),
            (\<lparr>year = 2015, month = 3, day = 2, hour = 0, minute = 0, second = 0, microsecond = 0,
              tzinfo = None\<rparr>, PStr ''Minor storm'')]
           (PStr [])]"
  have i: "fst (init (service \<lparr>status_code = 200, body = None\<rparr>) (PStr ''valid_api_key'')) =
     Inr (client (PStr ''valid_api_key''))"
    by (rule init_service_200)
  have a: "answered (service ?r) ?r (get_mag_warning (client (PStr ''valid_api_key'')) (service ?r))"
    by (simp add: answered_def same_date_warning) (simp add: service_def)
  have f: "fst (get_mag_warning (client (PStr ''valid_api_key'')) (service ?r)) = Inr ?rs"
    by (simp add: same_date_warning)
  from activity_pairs_in_order[OF i a _ _ _ f, of ?j "[?w]" 0 ?es]
  show ?thesis using i by (simp add: f)
qed

text \<open>
  C10. In \<^verbatim>\<open>get_mag_warning\<close> the date of an activity entry is parsed with
  \<^verbatim>\<open>"%Y-%m-%d"\<close> only: an entry of an \<^verbatim>\<open>activity\<close> array whose date is a string in the format
  with the time of day, or whose key \<^verbatim>\<open>date\<close> or \<^verbatim>\<open>forecast\<close> is absent, makes its step of
  the comprehension raise, and the whole call with it.
\<close>

theorem activity_entry_date_only:
  assumes "fst (init e0 key) = Inr self"
    and "answered e r (get_mag_warning self e)"
    and "status_code r = 200" and "body r = Some j"
    and "getitem j ''data'' = Inr (PList ws)"
    and "w \<in> set ws" and "getitem w ''activity'' = Inr (PList es)" and "a \<in> set es"
    and "(\<exists>k. getitem a ''date'' = Inl (KeyError k)) \<or>
         (\<exists>k. getitem a ''forecast'' = Inl (KeyError k)) \<or>
         (\<exists>v t. getitem a ''date'' = Inr v \<and> strptime v ''%Y-%m-%d %H:%M:%S'' = Inr t)"
  shows "(\<exists>err. day_entry self a = Inl err) \<and> (\<exists>err. fst (get_mag_warning self e) = Inl err)"
proof -
  have self: "self = client key" using assms(1) by (rule init_client)
  have d: "\<exists>err. day_entry self a = Inl err"
    using assms(9)
  proof (elim disjE exE conjE)
    fix k assume "getitem a ''date'' = Inl (KeyError k)"
    then show ?thesis by (simp add: day_entry_def)
  next
    fix k assume f: "getitem a ''forecast'' = Inl (KeyError k)"
    show ?thesis
    proof (cases "getitem a ''date''")
      case (Inl err)
      then show ?thesis by (simp add: day_entry_def)
    next
      case (Inr v)
      with f show ?thesis
        by (cases "strptime v (time_format self)") (simp_all add: day_entry_def)
    qed
  next
    fix v t assume g: "getitem a ''date'' = Inr v"
      and p: "strptime v ''%Y-%m-%d %H:%M:%S'' = Inr t"
    from full_not_date[OF p] g show ?thesis by (auto simp: day_entry_def self)
  qed
  then obtain err where "day_entry self a = Inl err" by blast
  from collect_fails[of a es "day_entry self" err, OF assms(8) this] obtain err1 where "collect (day_entry self) es = Inl err1"
    by blast
  from mag_warning_record_activity_fails[OF assms(7) this] obtain err2 where
    "mag_warning_record self w = Inl err2" by blast
  from collect_fails[of w ws "mag_warning_record self" err2, OF assms(6) this] obtain err3 where
    c: "collect (mag_warning_record self) ws = Inl err3" by blast
  from assms(6) obtain x xs where ws: "ws = x # xs" by (cases ws) auto
  from get_mag_warning_cases[OF assms(2)] responses_list(3)[OF assms(3,4) assms(5)[unfolded ws]] c
  have "fst (get_mag_warning self e) = Inl err3" by (auto simp: ws)
  with d show ?thesis by blast
qed

lemma strptime_full_20150302:
  "strptime (PStr ''2015-03-02 00:00:00'') ''%Y-%m-%d %H:%M:%S'' =
     Inr \<lparr>year = 2015, month = 3, day = 2, hour = 0, minute = 0, second = 0, microsecond = 0,
          tzinfo = None\<rparr>"
  by (simp add: strptime_eval)

theorem activity_entry_date_only_witness:
  "fst (init (service \<lparr>status_code = 200, body = None\<rparr>) (PStr ''valid_api_key'')) =
     Inr (client (PStr ''valid_api_key'')) \<and>
   strptime (PStr ''2015-03-02 00:00:00'') ''%Y-%m-%d %H:%M:%S'' =
     Inr \<lparr>year = 2015, month = 3, day = 2, hour = 0, minute = 0, second = 0, microsecond = 0,
          tzinfo = None\<rparr> \<and>
   (\<exists>err. fst (get_mag_warning (client (PStr ''valid_api_key''))
        (service \<lparr>status_code = 200, body = Some (PDict [(''data'', PList [PDict
          [(''cause'', PStr ''coronal hole''),
           (''activity'', PList [PDict [(''date'', PStr ''2015-03-02 00:00:00''),
                                        (''forecast'', PStr ''Unsettled'')]]),
           (''comments'', PStr [])]])])\<rparr>)) = Inl err)"
proof -
  let ?a = "PDict [(''date'', PStr ''2015-03-02 00:00:00''), (''forecast'', PStr ''Unsettled'')]"
  let ?w = "PDict [(''cause'', PStr ''coronal hole''), (''activity'', PList [?a]), (''comments'', PStr [])]"
  let ?j = "PDict [(''data'', PList [?w])]"
  let ?r = "\<lparr>status_code = 200, body = Some ?j\<rparr>"
  have i: "fst (init (service \<lparr>status_code = 200, body = None\<rparr>) (PStr ''valid_api_key'')) =
     Inr (client (PStr ''valid_api_key''))"
    by (rule init_service_200)
  have a: "answered (service ?r) ?r (get_mag_warning (client (PStr ''valid_api_key'')) (service ?r))"
    by (simp add: answered_def get_mag_warning_def send_def service_def)
  have b: "(\<exists>k. getitem ?a ''date'' = Inl (KeyError k)) \<or>
         (\<exists>k. getitem ?a ''forecast'' = Inl (KeyError k)) \<or>
         (\<exists>v t. getitem ?a ''date'' = Inr v \<and> strptime v ''%Y-%m-%d %H:%M:%S'' = Inr t)"
    by (simp add: strptime_full_20150302)
  from activity_entry_date_only[OF i a _ _ _ _ _ _ b, of ?j "[?w]" ?w "[?a]"]
  show ?thesis using i by (simp add: strptime_full_20150302)
qed

section \<open>The conversion of the timestamp fields\<close>















lemma mag_alert_not_dict: "(\<And>kvs. elem \<noteq> PDict kvs) \<Longrightarrow> mag_alert_times self (tp # rest) elem = Inl TypeError"
  by (cases elem) auto







section \<open>The conversion policies of the endpoints\<close>




















section \<open>Calls and their elements\<close>









section \<open>Parsed or absent\<close>



















section \<open>Claims about the timestamp fields\<close>









end
